theory Spec2Isabelle
  imports Main
begin

section \<open>JavaScript values and errors\<close>

text \<open>
  The session data handed to the plugin is an untyped JavaScript value: the result of
  \<^verbatim>\<open>client.getSession()\<close> or of \<^verbatim>\<open>JSON.parse\<close> on a cached string. The
  model keeps the shapes the plugin can tell apart: the two nullish values, primitives,
  arrays and objects (an object is its list of own properties; the first binding of a
  name is the one read). Numbers are integers here; no claim looks at a number's value.
  A \<^verbatim>\<open>Date\<close> object, as the session's time stamps are, is kept apart from the
  string that \<^verbatim>\<open>JSON.stringify\<close> writes for it; it is given by that ISO text.
\<close>

datatype js_value =
    JUndefined
  | JNull
  | JBool bool
  | JNum int
  | JStr string
  | JDate string
  | JArr "js_value list"
  | JObj "(string \<times> js_value) list"

text \<open>
  Everything that can be thrown. \<open>GraphQLError\<close> is the class the plugin tests with
  \<^verbatim>\<open>instanceof\<close>; it carries the message and \<^verbatim>\<open>extensions.http.status\<close>.
  \<open>Error\<close> is a plain \<^verbatim>\<open>new Error(message)\<close>; \<open>TypeError\<close> is what a property
  read on \<^verbatim>\<open>null\<close> or \<^verbatim>\<open>undefined\<close> throws; \<open>SyntaxError\<close> is what
  \<^verbatim>\<open>JSON.parse\<close> throws; \<open>Thrown\<close> stands for any other failure of a collaborator.
\<close>

datatype js_error =
    GraphQLError (message: string) (http_status: "nat option")
  | Error string
  | TypeError
  | SyntaxError
  | Thrown string

text \<open>JavaScript truthiness, as used by \<^verbatim>\<open>!x\<close> and \<^verbatim>\<open>x || y\<close>.\<close>

fun truthy :: "js_value \<Rightarrow> bool" where
  "truthy JUndefined = False"
| "truthy JNull = False"
| "truthy (JBool b) = b"
| "truthy (JNum n) = (n \<noteq> 0)"
| "truthy (JStr s) = (s \<noteq> [])"
| "truthy (JDate _) = True"
| "truthy (JArr _) = True"
| "truthy (JObj _) = True"

text \<open>
  The property read \<^verbatim>\<open>v.name\<close>, for the three names the plugin reads
  (\<^verbatim>\<open>session\<close>, \<^verbatim>\<open>user\<close>, \<^verbatim>\<open>role\<close>), none of which is a built-in property
  of a primitive or of an array: it throws on a nullish value, finds an own property of
  an object, and is \<^verbatim>\<open>undefined\<close> everywhere else.
\<close>

fun get_prop :: "js_value \<Rightarrow> string \<Rightarrow> js_error + js_value" where
  "get_prop JUndefined name = Inl TypeError"
| "get_prop JNull name = Inl TypeError"
| "get_prop (JObj fields) name =
     Inr (case map_of fields name of None \<Rightarrow> JUndefined | Some v \<Rightarrow> v)"
| "get_prop v name = Inr JUndefined"

text \<open>The optional chain \<^verbatim>\<open>v?.name\<close>: \<^verbatim>\<open>undefined\<close> on a nullish value.\<close>

definition get_prop_optional :: "js_value \<Rightarrow> string \<Rightarrow> js_value" where
  "get_prop_optional v name = (case get_prop v name of Inl _ \<Rightarrow> JUndefined | Inr x \<Rightarrow> x)"

section \<open>Configuration, requests and the identity class\<close>

record messages =
  invalidToken :: string
  expiredToken :: string
  invalidPermissions :: string
  authRequired :: string

datatype client_plugin = ClientPlugin (plugin_id: string)

text \<open>A request: its object identity, and its headers by lower-case name.\<close>

record request =
  req_id :: nat
  headers :: "(string \<times> string) list"

record token_params =
  request :: request
  serverContext :: "string option"
  url :: string

text \<open>The handle of the cache backend; its contents are part of the world below.\<close>

datatype redis_client = RedisClient

text \<open>
  \<^verbatim>\<open>BetterAuthPluginOptions\<close>. Every option is optional in the source; \<open>None\<close> is
  an option left out, which the destructuring defaults then fill in.
\<close>

record options =
  baseURL :: "string option"
  redis :: "redis_client option"
  cachePrefix :: "string option"
  cacheExpiration :: "int option"
  plugins :: "client_plugin list option"
  suppressRoleWarning :: "bool option"
  extendContextField :: "string option"
  allowedRoles :: "string list option"
  requireAuth :: "bool option"
  messages :: "messages option"
  getToken :: "(token_params \<Rightarrow> js_error + string option) option"

text \<open>What \<^verbatim>\<open>createAuthClient\<close> is given: the client handle bound to one token.\<close>

record auth_client =
  client_baseURL :: "string option"
  client_plugins :: "client_plugin list option"
  client_token :: string

text \<open>The class \<^verbatim>\<open>BetterAuth\<close>: three read-only fields set by the constructor.\<close>

record better_auth =
  client :: auth_client
  session :: js_value
  user :: js_value

section \<open>The world outside the plugin\<close>

text \<open>
  Outbound calls are logged in the order they are made, a failed call included.
\<close>

datatype effect =
    is_CacheRead: CacheRead string
  | is_CacheWrite: CacheWrite string int string
  | is_SessionLookup: SessionLookup string

text \<open>
  The mutable state: a clock in seconds, the cache contents (value and the time it
  expires at), the plugin instance's \<^verbatim>\<open>payloadByRequest\<close> weak map (keyed by request
  identity), and the log of outbound calls.
\<close>

record world =
  now :: int
  redis_entries :: "string \<rightharpoonup> (string \<times> int)"
  payloadByRequest :: "nat \<rightharpoonup> better_auth"
  trace :: "effect list"

text \<open>A reference to the weak map, as passed to \<^verbatim>\<open>authorize\<close> (or \<^verbatim>\<open>null\<close>).\<close>

datatype weakmap_ref = PayloadByRequest

text \<open>
  The collaborators whose code is not part of the plugin, as parameters: the
  environment variable, the outcome of \<^verbatim>\<open>const { data } = await client.getSession()\<close>
  (the data, or a failure), whether a cache command throws, and the two JSON functions
  of the JavaScript runtime (\<open>None\<close> where \<^verbatim>\<open>JSON.parse\<close> throws its
  \<open>SyntaxError\<close>, and where \<^verbatim>\<open>JSON.stringify\<close> throws a \<open>TypeError\<close>).
\<close>

record host =
  BETTER_AUTH_URL :: "string option"
  getSession :: "auth_client \<Rightarrow> js_error + js_value"
  redis_get_fault :: "string \<Rightarrow> js_error option"
  redis_setEx_fault :: "string \<Rightarrow> int \<Rightarrow> string \<Rightarrow> js_error option"
  JSON_parse :: "string \<Rightarrow> js_value option"
  JSON_stringify :: "js_value \<Rightarrow> string option"

definition client_getSession ::
  "host \<Rightarrow> auth_client \<Rightarrow> world \<Rightarrow> (js_error + js_value) \<times> world" where
  "client_getSession h c w =
     (getSession h c, w\<lparr>trace := trace w @ [SessionLookup (client_token c)]\<rparr>)"

text \<open>
  Modelled from the spec: the cache backend, an external key-value store with
  \<^verbatim>\<open>get\<close> and \<^verbatim>\<open>set with expiration\<close>. An entry written at time \<open>t\<close> with a TTL of
  \<open>n\<close> seconds is returned by reads at times before \<open>t + n\<close> and is absent afterwards.
\<close>

definition redis_get ::
  "host \<Rightarrow> string \<Rightarrow> world \<Rightarrow> (js_error + string option) \<times> world" where
  "redis_get h key w =
     (let w' = w\<lparr>trace := trace w @ [CacheRead key]\<rparr> in
      case redis_get_fault h key of
        Some e \<Rightarrow> (Inl e, w')
      | None \<Rightarrow>
          (Inr (case redis_entries w key of
                  None \<Rightarrow> None
                | Some (v, deadline) \<Rightarrow> if now w < deadline then Some v else None),
           w'))"

definition redis_setEx ::
  "host \<Rightarrow> string \<Rightarrow> int \<Rightarrow> string \<Rightarrow> world \<Rightarrow> (js_error + unit) \<times> world" where
  "redis_setEx h key seconds v w =
     (let w' = w\<lparr>trace := trace w @ [CacheWrite key seconds v]\<rparr> in
      case redis_setEx_fault h key seconds v of
        Some e \<Rightarrow> (Inl e, w')
      | None \<Rightarrow>
          (Inr (), w'\<lparr>redis_entries := (redis_entries w)(key \<mapsto> (v, now w + seconds))\<rparr>))"

section \<open>The plugin\<close>

text \<open>
  \<^verbatim>\<open>unauthorizedError(message)\<close>: a \<open>GraphQLError\<close> with status 401. The source's
  optional second parameter is left out at every call site, and so here.
\<close>

definition unauthorizedError :: "string \<Rightarrow> js_error" where
  "unauthorizedError msg = GraphQLError msg (Some 401)"

text \<open>The default of \<^verbatim>\<open>messages\<close> in \<^verbatim>\<open>authorize\<close>.\<close>

definition default_messages :: messages where
  "default_messages =
     \<lparr>invalidToken = ''The provided access token is invalid.'',
      expiredToken = ''An invalid or expired access token was provided.'',
      invalidPermissions =
        ''You do not have the necessary permissions to access this resource.'',
      authRequired = ''Authentication is required to access this resource.''\<rparr>"

text \<open>
  \<^verbatim>\<open>handleAuthData\<close>. The role check reads \<^verbatim>\<open>data.user\<close> and \<^verbatim>\<open>user.role\<close>
  (either read throws on a nullish value), replaces a falsy role by \<^verbatim>\<open>'user'\<close>, and
  tests membership with \<^verbatim>\<open>includes\<close>. Then the identity is built and, when both a
  weak map and a request were passed, recorded under the request.
\<close>

definition role_check :: "js_value \<Rightarrow> string list \<Rightarrow> messages \<Rightarrow> js_error + unit" where
  "role_check data roles msgs =
     (case get_prop data ''user'' of
        Inl e \<Rightarrow> Inl e
      | Inr u \<Rightarrow>
          (case get_prop u ''role'' of
             Inl e \<Rightarrow> Inl e
           | Inr r \<Rightarrow>
               (let userRole = (if truthy r then r else JStr ''user'') in
                if userRole \<notin> set (map JStr roles)
                then Inl (unauthorizedError (invalidPermissions msgs))
                else Inr ())))"

definition handleAuthData ::
  "js_value \<Rightarrow> auth_client \<Rightarrow> string list \<Rightarrow> messages \<Rightarrow> weakmap_ref option \<Rightarrow>
   request option \<Rightarrow> world \<Rightarrow> (js_error + better_auth) \<times> world" where
  "handleAuthData data cl roles msgs pbr req w =
     (case (if length roles > 0 then role_check data roles msgs else Inr ()) of
        Inl e \<Rightarrow> (Inl e, w)
      | Inr _ \<Rightarrow>
          (case get_prop data ''session'' of
             Inl e \<Rightarrow> (Inl e, w)
           | Inr s \<Rightarrow>
               (case get_prop data ''user'' of
                  Inl e \<Rightarrow> (Inl e, w)
                | Inr u \<Rightarrow>
                    (let auth = \<lparr>client = cl, session = s, user = u\<rparr> in
                     (Inr auth,
                      case (pbr, req) of
                        (Some PayloadByRequest, Some r) \<Rightarrow>
                          w\<lparr>payloadByRequest := (payloadByRequest w)(req_id r \<mapsto> auth)\<rparr>
                      | _ \<Rightarrow> w)))))"

text \<open>
  The three \<^verbatim>\<open>try\<close> blocks of \<^verbatim>\<open>authorize\<close>, each returning what its body
  returns or throws, with the world as the body left it.
\<close>

definition authorize_try_direct ::
  "host \<Rightarrow> auth_client \<Rightarrow> string list \<Rightarrow> messages \<Rightarrow> weakmap_ref option \<Rightarrow>
   request option \<Rightarrow> world \<Rightarrow> (js_error + better_auth) \<times> world" where
  "authorize_try_direct h cl roles msgs pbr req w =
     (case client_getSession h cl w of
        (Inl e, w1) \<Rightarrow> (Inl e, w1)
      | (Inr data, w1) \<Rightarrow>
          if \<not> truthy (get_prop_optional data ''session'')
          then (Inl (unauthorizedError (invalidToken msgs)), w1)
          else handleAuthData data cl roles msgs pbr req w1)"

definition authorize_try_miss ::
  "host \<Rightarrow> auth_client \<Rightarrow> string \<Rightarrow> int \<Rightarrow> string list \<Rightarrow> messages \<Rightarrow>
   weakmap_ref option \<Rightarrow> request option \<Rightarrow> world \<Rightarrow> (js_error + better_auth) \<times> world" where
  "authorize_try_miss h cl cacheKey seconds roles msgs pbr req w =
     (case client_getSession h cl w of
        (Inl e, w1) \<Rightarrow> (Inl e, w1)
      | (Inr data, w1) \<Rightarrow>
          if \<not> truthy (get_prop_optional data ''session'')
          then (Inl (unauthorizedError (invalidToken msgs)), w1)
          else
            (case JSON_stringify h data of
               None \<Rightarrow> (Inl TypeError, w1)
             | Some text \<Rightarrow>
                 (case redis_setEx h cacheKey seconds text w1 of
                    (Inl e, w2) \<Rightarrow> (Inl e, w2)
                  | (Inr _, w2) \<Rightarrow> handleAuthData data cl roles msgs pbr req w2)))"

definition authorize_try_hit ::
  "host \<Rightarrow> auth_client \<Rightarrow> string \<Rightarrow> string list \<Rightarrow> messages \<Rightarrow> weakmap_ref option \<Rightarrow>
   request option \<Rightarrow> world \<Rightarrow> (js_error + better_auth) \<times> world" where
  "authorize_try_hit h cl cachedData roles msgs pbr req w =
     (case JSON_parse h cachedData of
        None \<Rightarrow> (Inl SyntaxError, w)
      | Some data \<Rightarrow> handleAuthData data cl roles msgs pbr req w)"

text \<open>
  \<^verbatim>\<open>authorize\<close>. Without a cache: the direct block, under \<^verbatim>\<open>catch { throw
  unauthorizedError(messages.invalidToken) }\<close>. With a cache: the read (not inside any
  \<^verbatim>\<open>try\<close>), then on a falsy result the miss block under the same bare \<^verbatim>\<open>catch\<close>,
  and otherwise the hit block, whose \<^verbatim>\<open>catch\<close> rethrows a \<open>GraphQLError\<close> as it is.
\<close>

definition authorize ::
  "host \<Rightarrow> options \<Rightarrow> string \<Rightarrow> weakmap_ref option \<Rightarrow> request option \<Rightarrow> world \<Rightarrow>
   (js_error + better_auth) \<times> world" where
  "authorize h opts token pbr req w =
     (let baseURL' = (case baseURL opts of None \<Rightarrow> BETTER_AUTH_URL h | Some u \<Rightarrow> Some u);
          cachePrefix' = (case cachePrefix opts of None \<Rightarrow> ''tokens'' | Some p \<Rightarrow> p);
          cacheExpiration' = (case cacheExpiration opts of None \<Rightarrow> 5 | Some n \<Rightarrow> n);
          msgs = (case messages opts of None \<Rightarrow> default_messages | Some m \<Rightarrow> m);
          allowedRoles' = (case allowedRoles opts of None \<Rightarrow> [] | Some rs \<Rightarrow> rs);
          cl = \<lparr>client_baseURL = baseURL', client_plugins = plugins opts,
                client_token = token\<rparr>
      in
      case redis opts of
        None \<Rightarrow>
          (case authorize_try_direct h cl allowedRoles' msgs pbr req w of
             (Inl _, w1) \<Rightarrow> (Inl (unauthorizedError (invalidToken msgs)), w1)
           | (Inr auth, w1) \<Rightarrow> (Inr auth, w1))
      | Some RedisClient \<Rightarrow>
          (let cacheKey = cachePrefix' @ '':'' @ token in
           case redis_get h cacheKey w of
             (Inl e, w1) \<Rightarrow> (Inl e, w1)
           | (Inr cachedData, w1) \<Rightarrow>
               (case (case cachedData of None \<Rightarrow> None | Some [] \<Rightarrow> None | Some s \<Rightarrow> Some s) of
                  None \<Rightarrow>
                    (case authorize_try_miss h cl cacheKey cacheExpiration' allowedRoles'
                            msgs pbr req w1 of
                       (Inl _, w2) \<Rightarrow> (Inl (unauthorizedError (invalidToken msgs)), w2)
                     | (Inr auth, w2) \<Rightarrow> (Inr auth, w2))
                | Some s \<Rightarrow>
                    (case authorize_try_hit h cl s allowedRoles' msgs pbr req w1 of
                       (Inl ex, w2) \<Rightarrow>
                         (if is_GraphQLError ex then (Inl ex, w2)
                          else (Inl (unauthorizedError (invalidToken msgs)), w2))
                     | (Inr auth, w2) \<Rightarrow> (Inr auth, w2)))))"

text \<open>
  \<^verbatim>\<open>String.prototype.split\<close> with a one-character separator: the pieces between the
  separators, in order; a string without the separator is its own single piece.
\<close>

fun split :: "char \<Rightarrow> string \<Rightarrow> string list" where
  "split sep [] = [[]]"
| "split sep (c # cs) =
     (if c = sep then [] # split sep cs
      else (case split sep cs of
              [] \<Rightarrow> [[c]]
            | piece # pieces \<Rightarrow> (c # piece) # pieces))"

text \<open>\<^verbatim>\<open>request.headers.get(name)\<close>, with \<open>None\<close> for \<^verbatim>\<open>null\<close>.\<close>

definition headers_get :: "request \<Rightarrow> string \<Rightarrow> string option" where
  "headers_get r name = map_of (headers r) name"

text \<open>
  \<^verbatim>\<open>defaultGetToken\<close>: a falsy header (missing or empty) gives \<^verbatim>\<open>undefined\<close>;
  otherwise \<^verbatim>\<open>const [type, token] = header.split(' ')\<close> takes the first two pieces,
  \<^verbatim>\<open>token\<close> being \<^verbatim>\<open>undefined\<close> when there is only one.
\<close>

definition defaultGetToken :: "token_params \<Rightarrow> js_error + string option" where
  "defaultGetToken params =
     (case headers_get (request params) ''authorization'' of
        None \<Rightarrow> Inr None
      | Some header \<Rightarrow>
          if header = [] then Inr None
          else
            (let pieces = split (CHR '' '') header;
                 type = (case pieces of [] \<Rightarrow> None | t # _ \<Rightarrow> Some t);
                 token = (case pieces of _ # t # _ \<Rightarrow> Some t | _ \<Rightarrow> None)
             in
             if type \<noteq> Some ''Bearer''
             then Inl (unauthorizedError
                         (''Unsupported token type provided: '' @ [CHR 0x22] @
                          (case type of None \<Rightarrow> ''undefined'' | Some t \<Rightarrow> t) @ [CHR 0x22]))
             else Inr token))"

text \<open>
  The hook \<^verbatim>\<open>onRequestParse\<close> of the plugin \<^verbatim>\<open>useBetterAuth(options)\<close> returns. Its
  \<^verbatim>\<open>messages\<close> default holds \<^verbatim>\<open>authRequired\<close> only, the one message it reads.
\<close>

definition onRequestParse ::
  "host \<Rightarrow> options \<Rightarrow> token_params \<Rightarrow> world \<Rightarrow> (js_error + unit) \<times> world" where
  "onRequestParse h opts params w =
     (let requireAuth' = (case requireAuth opts of None \<Rightarrow> False | Some b \<Rightarrow> b);
          authRequired' =
            (case messages opts of
               None \<Rightarrow> ''Authentication is required to access this resource.''
             | Some m \<Rightarrow> authRequired m);
          getToken' = (case getToken opts of None \<Rightarrow> defaultGetToken | Some g \<Rightarrow> g)
      in
      case getToken' params of
        Inl e \<Rightarrow> (Inl e, w)
      | Inr (Some token) \<Rightarrow>
          (case authorize h opts token (Some PayloadByRequest) (Some (request params)) w of
             (Inl e, w1) \<Rightarrow> (Inl e, w1)
           | (Inr _, w1) \<Rightarrow> (Inr (), w1))
      | Inr None \<Rightarrow>
          if requireAuth' then (Inl (unauthorizedError authRequired'), w)
          else (Inr (), w))"

text \<open>
  The building context: an object whose properties are looked up by name. The hook
  reads \<^verbatim>\<open>context.request\<close> and, through \<^verbatim>\<open>extendContext\<close>, adds one property.
\<close>

datatype context_value =
    CtxNull
  | CtxRequest request
  | CtxPayload better_auth
  | CtxOther string

type_synonym yoga_context = "string \<rightharpoonup> context_value"

text \<open>\<^verbatim>\<open>extendContext(partial)\<close> of the server: the properties are merged in.\<close>

definition extendContext :: "yoga_context \<Rightarrow> string \<Rightarrow> context_value \<Rightarrow> yoga_context" where
  "extendContext ctx field v = ctx(field \<mapsto> v)"

text \<open>
  \<^verbatim>\<open>onContextBuilding\<close>. \<^verbatim>\<open>context.request == null\<close> holds for a missing property
  and for \<^verbatim>\<open>null\<close>. The weak map has entries for request objects only.
\<close>

definition onContextBuilding :: "options \<Rightarrow> yoga_context \<Rightarrow> world \<Rightarrow> js_error + yoga_context" where
  "onContextBuilding opts ctx w =
     (let extendContextField' =
            (case extendContextField opts of None \<Rightarrow> ''auth'' | Some f \<Rightarrow> f)
      in
      case ctx ''request'' of
        None \<Rightarrow>
          Inl (Error (''Request is not available on context! '' @
                      ''Make sure you use this plugin with GraphQL Yoga.''))
      | Some CtxNull \<Rightarrow>
          Inl (Error (''Request is not available on context! '' @
                      ''Make sure you use this plugin with GraphQL Yoga.''))
      | Some v \<Rightarrow>
          (case (case v of CtxRequest r \<Rightarrow> payloadByRequest w (req_id r) | _ \<Rightarrow> None) of
             None \<Rightarrow> Inr ctx
           | Some payload \<Rightarrow> Inr (extendContext ctx extendContextField' (CtxPayload payload))))"

text \<open>
  The source holds a second form of \<^verbatim>\<open>useBetterAuth\<close>, without \<^verbatim>\<open>authorize\<close>
  and without a cache: its \<^verbatim>\<open>onRequestParse\<close> does the session lookup and the role
  check inline, in one \<^verbatim>\<open>try\<close> block whose \<^verbatim>\<open>catch\<close> rethrows a
  \<open>GraphQLError\<close> as it is. Its \<^verbatim>\<open>messages\<close> default holds all four messages.
\<close>

definition onRequestParse_inline_try ::
  "host \<Rightarrow> options \<Rightarrow> string \<Rightarrow> request \<Rightarrow> world \<Rightarrow> (js_error + unit) \<times> world" where
  "onRequestParse_inline_try h opts token req w =
     (let baseURL' = (case baseURL opts of None \<Rightarrow> BETTER_AUTH_URL h | Some u \<Rightarrow> Some u);
          msgs = (case messages opts of None \<Rightarrow> default_messages | Some m \<Rightarrow> m);
          allowedRoles' = (case allowedRoles opts of None \<Rightarrow> [] | Some rs \<Rightarrow> rs);
          cl = \<lparr>client_baseURL = baseURL', client_plugins = plugins opts,
                client_token = token\<rparr>
      in
      case client_getSession h cl w of
        (Inl e, w1) \<Rightarrow> (Inl e, w1)
      | (Inr data, w1) \<Rightarrow>
          if \<not> truthy (get_prop_optional data ''session'')
          then (Inl (unauthorizedError (invalidToken msgs)), w1)
          else
            (case (if length allowedRoles' > 0 then role_check data allowedRoles' msgs
                   else Inr ()) of
               Inl e \<Rightarrow> (Inl e, w1)
             | Inr _ \<Rightarrow>
                 (case get_prop data ''session'' of
                    Inl e \<Rightarrow> (Inl e, w1)
                  | Inr s \<Rightarrow>
                      (case get_prop data ''user'' of
                         Inl e \<Rightarrow> (Inl e, w1)
                       | Inr u \<Rightarrow>
                           (Inr (),
                            w1\<lparr>payloadByRequest := (payloadByRequest w1)
                                 (req_id req \<mapsto> \<lparr>client = cl, session = s, user = u\<rparr>)\<rparr>)))))"

definition onRequestParse_inline ::
  "host \<Rightarrow> options \<Rightarrow> token_params \<Rightarrow> world \<Rightarrow> (js_error + unit) \<times> world" where
  "onRequestParse_inline h opts params w =
     (let requireAuth' = (case requireAuth opts of None \<Rightarrow> False | Some b \<Rightarrow> b);
          msgs = (case messages opts of None \<Rightarrow> default_messages | Some m \<Rightarrow> m);
          getToken' = (case getToken opts of None \<Rightarrow> defaultGetToken | Some g \<Rightarrow> g)
      in
      case getToken' params of
        Inl e \<Rightarrow> (Inl e, w)
      | Inr (Some token) \<Rightarrow>
          (case onRequestParse_inline_try h opts token (request params) w of
             (Inl ex, w1) \<Rightarrow>
               (if is_GraphQLError ex then (Inl ex, w1)
                else (Inl (unauthorizedError (invalidToken msgs)), w1))
           | (Inr _, w1) \<Rightarrow> (Inr (), w1))
      | Inr None \<Rightarrow>
          if requireAuth' then (Inl (unauthorizedError (authRequired msgs)), w)
          else (Inr (), w))"

section \<open>What one invocation is given and what it leaves behind\<close>

text \<open>
  The values the destructuring at the head of \<^verbatim>\<open>authorize\<close> binds, by name, for
  use in the statements below.
\<close>

definition authorize_client :: "host \<Rightarrow> options \<Rightarrow> string \<Rightarrow> auth_client" where
  "authorize_client h opts token =
     \<lparr>client_baseURL = (case baseURL opts of None \<Rightarrow> BETTER_AUTH_URL h | Some u \<Rightarrow> Some u),
      client_plugins = plugins opts, client_token = token\<rparr>"

definition authorize_messages :: "options \<Rightarrow> messages" where
  "authorize_messages opts =
     (case messages opts of None \<Rightarrow> default_messages | Some m \<Rightarrow> m)"

definition authorize_roles :: "options \<Rightarrow> string list" where
  "authorize_roles opts = (case allowedRoles opts of None \<Rightarrow> [] | Some rs \<Rightarrow> rs)"

definition authorize_cacheKey :: "options \<Rightarrow> string \<Rightarrow> string" where
  "authorize_cacheKey opts token =
     (case cachePrefix opts of None \<Rightarrow> ''tokens'' | Some p \<Rightarrow> p) @ '':'' @ token"

definition authorize_ttl :: "options \<Rightarrow> int" where
  "authorize_ttl opts = (case cacheExpiration opts of None \<Rightarrow> 5 | Some n \<Rightarrow> n)"

text \<open>The values the destructuring at the head of \<^verbatim>\<open>useBetterAuth\<close> binds.\<close>

definition plugin_getToken :: "options \<Rightarrow> token_params \<Rightarrow> js_error + string option" where
  "plugin_getToken opts = (case getToken opts of None \<Rightarrow> defaultGetToken | Some g \<Rightarrow> g)"

definition plugin_authRequired :: "options \<Rightarrow> string" where
  "plugin_authRequired opts =
     (case messages opts of
        None \<Rightarrow> ''Authentication is required to access this resource.''
      | Some m \<Rightarrow> authRequired m)"

definition plugin_contextField :: "options \<Rightarrow> string" where
  "plugin_contextField opts =
     (case extendContextField opts of None \<Rightarrow> ''auth'' | Some f \<Rightarrow> f)"





text \<open>
  What \<^verbatim>\<open>handleAuthData\<close> returns or throws, which does not depend on the world, and
  the condition under which an invocation of \<^verbatim>\<open>authorize\<close> hands \<open>data\<close> to it:
  without a cache, the lookup returned \<open>data\<close> with a truthy session; with a cache and
  a falsy read, the same and the cache write went through; with a cache and a truthy
  read, the cached text parsed to \<open>data\<close>.
\<close>

definition handleAuthData_result ::
  "js_value \<Rightarrow> auth_client \<Rightarrow> string list \<Rightarrow> messages \<Rightarrow> js_error + better_auth" where
  "handleAuthData_result data cl roles msgs =
     (case (if length roles > 0 then role_check data roles msgs else Inr ()) of
        Inl e \<Rightarrow> Inl e
      | Inr _ \<Rightarrow>
          (case get_prop data ''session'' of
             Inl e \<Rightarrow> Inl e
           | Inr s \<Rightarrow>
               (case get_prop data ''user'' of
                  Inl e \<Rightarrow> Inl e
                | Inr u \<Rightarrow> Inr \<lparr>client = cl, session = s, user = u\<rparr>)))"

definition fresh_session :: "host \<Rightarrow> options \<Rightarrow> string \<Rightarrow> js_value \<Rightarrow> bool" where
  "fresh_session h opts token data =
     (getSession h (authorize_client h opts token) = Inr data \<and>
      truthy (get_prop_optional data ''session''))"

definition cache_read_result :: "host \<Rightarrow> options \<Rightarrow> string \<Rightarrow> world \<Rightarrow> js_error + string option" where
  "cache_read_result h opts token w = fst (redis_get h (authorize_cacheKey opts token) w)"

definition reaches_handleAuthData ::
  "host \<Rightarrow> options \<Rightarrow> string \<Rightarrow> world \<Rightarrow> js_value \<Rightarrow> bool" where
  "reaches_handleAuthData h opts token w data =
     (case redis opts of
        None \<Rightarrow> fresh_session h opts token data
      | Some RedisClient \<Rightarrow>
          (case cache_read_result h opts token w of
             Inl _ \<Rightarrow> False
           | Inr cached \<Rightarrow>
               if cached = None \<or> cached = Some []
               then fresh_session h opts token data \<and>
                 (case JSON_stringify h data of
                    None \<Rightarrow> False
                  | Some text \<Rightarrow>
                      redis_setEx_fault h (authorize_cacheKey opts token) (authorize_ttl opts)
                        text = None)
               else JSON_parse h (the cached) = Some data))"

section \<open>The extractor in the words of the specification\<close>

text \<open>
  The extractor as the specification words it, for comparison with \<open>defaultGetToken\<close>:
  a present header is split on its first space into a scheme and a value (everything
  after that space; no value when there is no space), a scheme other than
  \<^verbatim>\<open>Bearer\<close> is an error naming the scheme, and otherwise the value is returned.
\<close>

definition spec_split_first_space :: "string \<Rightarrow> string \<times> string option" where
  "spec_split_first_space header =
     (takeWhile (\<lambda>c. c \<noteq> CHR '' '') header,
      case dropWhile (\<lambda>c. c \<noteq> CHR '' '') header of
        [] \<Rightarrow> None
      | _ # v \<Rightarrow> Some v)"

definition invalid_scheme_error :: "string \<Rightarrow> js_error" where
  "invalid_scheme_error scheme =
     GraphQLError (''Unsupported token type provided: '' @ [CHR 0x22] @ scheme @ [CHR 0x22])
       (Some 401)"

definition spec_extract :: "string option \<Rightarrow> js_error + string option" where
  "spec_extract header =
     (case header of
        None \<Rightarrow> Inr None
      | Some text \<Rightarrow>
          (case spec_split_first_space text of
             (scheme, v) \<Rightarrow>
               if scheme \<noteq> ''Bearer'' then Inl (invalid_scheme_error scheme) else Inr v))"

section \<open>Concrete configurations\<close>

text \<open>
  Inputs at which the statements below are evaluated: the options object \<^verbatim>\<open>{}\<close>, an
  idle world at time 0, a host whose session lookup has one fixed outcome, whose cache
  never throws and whose JSON functions know the listed texts, requests with given
  headers, and session data for a user with a given role.
\<close>

definition example_options :: options where
  "example_options =
     \<lparr>baseURL = None, redis = None, cachePrefix = None, cacheExpiration = None,
      plugins = None, suppressRoleWarning = None, extendContextField = None,
      allowedRoles = None, requireAuth = None, messages = None, getToken = None\<rparr>"

definition example_world :: world where
  "example_world =
     \<lparr>now = 0, redis_entries = Map.empty, payloadByRequest = Map.empty, trace = []\<rparr>"

definition example_host :: "js_error + js_value \<Rightarrow> (string \<times> js_value) list \<Rightarrow> host" where
  "example_host outcome json_texts =
     \<lparr>BETTER_AUTH_URL = None,
      getSession = (\<lambda>_. outcome),
      redis_get_fault = (\<lambda>_. None),
      redis_setEx_fault = (\<lambda>_ _ _. None),
      JSON_parse = map_of json_texts,
      JSON_stringify = map_of (map (\<lambda>(s, v). (v, s)) json_texts)\<rparr>"

definition example_request :: "(string \<times> string) list \<Rightarrow> request" where
  "example_request hs = \<lparr>req_id = 1, headers = hs\<rparr>"

definition example_params :: "(string \<times> string) list \<Rightarrow> token_params" where
  "example_params hs =
     \<lparr>request = example_request hs, serverContext = None, url = ''/graphql''\<rparr>"

definition session_of_role :: "string \<Rightarrow> js_value" where
  "session_of_role r =
     JObj [(''session'', JObj [(''id'', JStr ''s1'')]),
           (''user'', JObj [(''id'', JStr ''u1''), (''role'', JStr r)])]"

definition session_text_of_role :: "string \<Rightarrow> string" where
  "session_text_of_role r =
     ''{\"session\":{\"id\":\"s1\"},\"user\":{\"id\":\"u1\",\"role\":\"'' @ r @ ''\"}}''"

definition example_identity :: "string \<Rightarrow> string \<Rightarrow> better_auth" where
  "example_identity token r =
     \<lparr>client = \<lparr>client_baseURL = None, client_plugins = None, client_token = token\<rparr>,
      session = JObj [(''id'', JStr ''s1'')],
      user = JObj [(''id'', JStr ''u1''), (''role'', JStr r)]\<rparr>"

definition session_without_role :: js_value where
  "session_without_role =
     JObj [(''session'', JObj [(''id'', JStr ''s1'')]), (''user'', JObj [(''id'', JStr ''u1'')])]"

text \<open>
  A cached object with a user and no \<^verbatim>\<open>session\<close> property, a world whose cache
  holds one entry that expires at time 5, and a caching configuration with a provider
  that knows an \<^verbatim>\<open>admin\<close> session.
\<close>

definition sessionless_data :: js_value where
  "sessionless_data = JObj [(''user'', JObj [(''id'', JStr ''u1''), (''role'', JStr ''admin'')])]"

definition sessionless_text :: string where
  "sessionless_text = ''{\"user\":{\"id\":\"u1\",\"role\":\"admin\"}}''"

definition cached_world :: "string \<Rightarrow> string \<Rightarrow> world" where
  "cached_world key str = example_world\<lparr>redis_entries := [key \<mapsto> (str, 5)]\<rparr>"










section \<open>Properties\<close>

subsection \<open>Unfolding \<^verbatim>\<open>authorize\<close>\<close>

lemma authorize_direct:
  "redis opts = None \<Longrightarrow>
   authorize h opts token pbr req w =
     (case authorize_try_direct h (authorize_client h opts token) (authorize_roles opts)
             (authorize_messages opts) pbr req w of
        (Inl _, w1) \<Rightarrow> (Inl (unauthorizedError (invalidToken (authorize_messages opts))), w1)
      | (Inr auth, w1) \<Rightarrow> (Inr auth, w1))"
  unfolding authorize_def Let_def authorize_client_def authorize_roles_def
    authorize_messages_def by simp

lemma authorize_client_token: "client_token (authorize_client h opts token) = token"
  by (simp add: authorize_client_def)

lemma handleAuthData_trace:
  "trace (snd (handleAuthData data cl roles msgs pbr req w)) = trace w"
  by (simp add: handleAuthData_def Let_def split: sum.splits option.splits weakmap_ref.splits)

lemma try_direct_trace:
  "trace (snd (authorize_try_direct h cl roles msgs pbr req w)) =
     trace w @ [SessionLookup (client_token cl)]"
  by (simp add: authorize_try_direct_def client_getSession_def handleAuthData_trace
      split: sum.splits)

lemma authorize_direct_trace:
  assumes "redis opts = None"
  shows "trace (snd (authorize h opts token pbr req w)) = trace w @ [SessionLookup token]"
  using try_direct_trace [of h "authorize_client h opts token" "authorize_roles opts"
      "authorize_messages opts" pbr req w]
  by (cases "authorize_try_direct h (authorize_client h opts token) (authorize_roles opts)
        (authorize_messages opts) pbr req w")
     (simp add: authorize_direct [OF assms] authorize_client_token split: sum.splits)

lemma try_direct_invalid:
  "(case getSession h cl of
      Inl _ \<Rightarrow> True
    | Inr data \<Rightarrow> \<not> truthy (get_prop_optional data ''session'')) \<Longrightarrow>
   \<exists>e. fst (authorize_try_direct h cl roles msgs pbr req w) = Inl e"
  by (simp add: authorize_try_direct_def client_getSession_def split: sum.splits)

lemmas example_defs =
  example_options_def example_world_def example_host_def session_of_role_def
  example_request_def example_params_def

lemmas authorize_defs =
  authorize_def authorize_try_direct_def authorize_try_miss_def authorize_try_hit_def
  handleAuthData_def role_check_def client_getSession_def redis_get_def redis_setEx_def
  unauthorizedError_def default_messages_def get_prop_optional_def Let_def

subsection \<open>Authorization without a cache\<close>

text \<open>
  C6. When no cache backend is configured, an invocation of \<open>authorize\<close> makes exactly
  one outbound call, the session lookup for its token. If the lookup throws, or the
  data it returns has no truthy \<^verbatim>\<open>session\<close>, the invocation fails with
  \<^verbatim>\<open>unauthorizedError(messages.invalidToken)\<close>. Every failure of such an invocation
  is a \<open>GraphQLError\<close> with HTTP status 401 whose message is taken from the configured
  messages (the defaults when none are configured).
\<close>

theorem authorize_without_cache:
  assumes "redis opts = None"
  shows "trace (snd (authorize h opts token pbr req w)) = trace w @ [SessionLookup token] \<and>
     ((case getSession h (authorize_client h opts token) of
         Inl _ \<Rightarrow> True
       | Inr data \<Rightarrow> \<not> truthy (get_prop_optional data ''session'')) \<longrightarrow>
      fst (authorize h opts token pbr req w) =
        Inl (GraphQLError (invalidToken (authorize_messages opts)) (Some 401))) \<and>
     (\<forall>e. fst (authorize h opts token pbr req w) = Inl e \<longrightarrow>
        e = GraphQLError (invalidToken (authorize_messages opts)) (Some 401))"
proof -
  let ?body = "authorize_try_direct h (authorize_client h opts token) (authorize_roles opts)
             (authorize_messages opts) pbr req w"
  have tr: "trace (snd (authorize h opts token pbr req w)) = trace w @ [SessionLookup token]"
    by (rule authorize_direct_trace [OF assms])
  have err: "\<forall>e. fst (authorize h opts token pbr req w) = Inl e \<longrightarrow>
        e = GraphQLError (invalidToken (authorize_messages opts)) (Some 401)"
    by (auto simp add: authorize_direct [OF assms] unauthorizedError_def
        split: prod.splits sum.splits)
  have inv: "(case getSession h (authorize_client h opts token) of
         Inl _ \<Rightarrow> True
       | Inr data \<Rightarrow> \<not> truthy (get_prop_optional data ''session'')) \<longrightarrow>
      fst (authorize h opts token pbr req w) =
        Inl (GraphQLError (invalidToken (authorize_messages opts)) (Some 401))"
  proof
    assume a: "case getSession h (authorize_client h opts token) of
         Inl _ \<Rightarrow> True
       | Inr data \<Rightarrow> \<not> truthy (get_prop_optional data ''session'')"
    from try_direct_invalid [OF a] obtain e where "fst ?body = Inl e" by blast
    then show "fst (authorize h opts token pbr req w) =
        Inl (GraphQLError (invalidToken (authorize_messages opts)) (Some 401))"
      by (cases ?body) (simp add: authorize_direct [OF assms] unauthorizedError_def)
  qed
  from tr inv err show ?thesis by blast
qed

text \<open>
  The theorem at the options \<^verbatim>\<open>{}\<close> and a host whose session lookup throws: one
  lookup is logged and the failure is the default invalid-token message with status 401.
\<close>

theorem authorize_without_cache_witness:
  "redis example_options = None \<and>
   trace (snd (authorize (example_host (Inl (Thrown ''network'')) []) example_options ''T''
                 None None example_world)) = [SessionLookup ''T''] \<and>
   fst (authorize (example_host (Inl (Thrown ''network'')) []) example_options ''T''
          None None example_world) =
     Inl (GraphQLError ''The provided access token is invalid.'' (Some 401))"
proof -
  let ?h = "example_host (Inl (Thrown ''network'')) []"
  have r: "redis example_options = None"
    by (simp add: example_options_def)
  have g: "getSession ?h c = Inl (Thrown ''network'')" for c
    by (simp add: example_host_def)
  have m: "invalidToken (authorize_messages example_options) =
             ''The provided access token is invalid.''"
    by (simp add: authorize_messages_def example_options_def default_messages_def)
  have e: "trace example_world = []"
    by (simp add: example_world_def)
  note th = authorize_without_cache [OF r, of ?h "''T''" None None example_world]
  have t: "trace (snd (authorize ?h example_options ''T'' None None example_world)) =
      [SessionLookup ''T'']"
    using th [THEN conjunct1] unfolding e by simp
  have f: "fst (authorize ?h example_options ''T'' None None example_world) =
     Inl (GraphQLError ''The provided access token is invalid.'' (Some 401))"
    using th [THEN conjunct2, THEN conjunct1] unfolding g m by simp
  from r t f show ?thesis by simp
qed

subsection \<open>The two hooks\<close>

lemma handleAuthData_records:
  "handleAuthData data cl roles msgs (Some PayloadByRequest) (Some r) w = (Inr a, w1) \<Longrightarrow>
   payloadByRequest w1 (req_id r) = Some a"
  by (auto simp: handleAuthData_def Let_def split: sum.splits)

lemma try_direct_records:
  "authorize_try_direct h cl roles msgs (Some PayloadByRequest) (Some r) w = (Inr a, w1) \<Longrightarrow>
   payloadByRequest w1 (req_id r) = Some a"
  by (auto simp: authorize_try_direct_def client_getSession_def
      split: sum.splits if_splits dest: handleAuthData_records)

lemma try_miss_records:
  "authorize_try_miss h cl key ttl roles msgs (Some PayloadByRequest) (Some r) w = (Inr a, w1) \<Longrightarrow>
   payloadByRequest w1 (req_id r) = Some a"
  by (auto simp: authorize_try_miss_def client_getSession_def redis_setEx_def Let_def
      split: sum.splits if_splits option.splits dest: handleAuthData_records)

lemma try_hit_records:
  "authorize_try_hit h cl text roles msgs (Some PayloadByRequest) (Some r) w = (Inr a, w1) \<Longrightarrow>
   payloadByRequest w1 (req_id r) = Some a"
  by (auto simp: authorize_try_hit_def split: option.splits dest: handleAuthData_records)

lemma authorize_cached:
  "redis opts = Some RedisClient \<Longrightarrow>
   authorize h opts token pbr req w =
     (case redis_get h (authorize_cacheKey opts token) w of
        (Inl e, w1) \<Rightarrow> (Inl e, w1)
      | (Inr cachedData, w1) \<Rightarrow>
          (case (case cachedData of None \<Rightarrow> None | Some [] \<Rightarrow> None | Some s \<Rightarrow> Some s) of
             None \<Rightarrow>
               (case authorize_try_miss h (authorize_client h opts token)
                       (authorize_cacheKey opts token) (authorize_ttl opts)
                       (authorize_roles opts) (authorize_messages opts) pbr req w1 of
                  (Inl _, w2) \<Rightarrow>
                    (Inl (unauthorizedError (invalidToken (authorize_messages opts))), w2)
                | (Inr auth, w2) \<Rightarrow> (Inr auth, w2))
           | Some s \<Rightarrow>
               (case authorize_try_hit h (authorize_client h opts token) s
                       (authorize_roles opts) (authorize_messages opts) pbr req w1 of
                  (Inl ex, w2) \<Rightarrow>
                    (if is_GraphQLError ex then (Inl ex, w2)
                     else (Inl (unauthorizedError (invalidToken (authorize_messages opts))),
                           w2))
                | (Inr auth, w2) \<Rightarrow> (Inr auth, w2))))"
  unfolding authorize_def Let_def authorize_client_def authorize_roles_def
    authorize_messages_def authorize_cacheKey_def authorize_ttl_def by simp

lemma authorize_records:
  assumes "authorize h opts token (Some PayloadByRequest) (Some r) w = (Inr a, w1)"
  shows "payloadByRequest w1 (req_id r) = Some a"
proof (cases "redis opts")
  case None
  with assms show ?thesis
    by (auto simp: authorize_direct split: prod.splits sum.splits dest: try_direct_records)
next
  case (Some c)
  then have "redis opts = Some RedisClient" by (cases c) simp
  with assms show ?thesis
    by (auto simp: authorize_cached split: prod.splits sum.splits option.splits list.splits
        if_splits dest: try_miss_records try_hit_records)
qed

lemma onRequestParse_token:
  "plugin_getToken opts params = Inr (Some t) \<Longrightarrow>
   onRequestParse h opts params w =
     (case authorize h opts t (Some PayloadByRequest) (Some (request params)) w of
        (Inl e, w1) \<Rightarrow> (Inl e, w1)
      | (Inr _, w1) \<Rightarrow> (Inr (), w1))"
  unfolding onRequestParse_def plugin_getToken_def Let_def by simp

lemma onRequestParse_absent:
  "plugin_getToken opts params = Inr None \<Longrightarrow>
   onRequestParse h opts params w =
     (if requireAuth opts = Some True
      then (Inl (unauthorizedError (plugin_authRequired opts)), w)
      else (Inr (), w))"
  unfolding onRequestParse_def plugin_getToken_def plugin_authRequired_def Let_def
  by (auto split: option.splits)

lemma onRequestParse_extractor_fails:
  "plugin_getToken opts params = Inl e \<Longrightarrow> onRequestParse h opts params w = (Inl e, w)"
  unfolding onRequestParse_def plugin_getToken_def Let_def by simp

lemma onContextBuilding_no_request:
  "ctx ''request'' = None \<or> ctx ''request'' = Some CtxNull \<Longrightarrow>
   onContextBuilding opts ctx w =
     Inl (Error ''Request is not available on context! Make sure you use this plugin with GraphQL Yoga.'')"
  unfolding onContextBuilding_def Let_def by auto

lemma onContextBuilding_request:
  "ctx ''request'' = Some (CtxRequest r) \<Longrightarrow>
   onContextBuilding opts ctx w =
     (case payloadByRequest w (req_id r) of
        None \<Rightarrow> Inr ctx
      | Some p \<Rightarrow> Inr (ctx(plugin_contextField opts \<mapsto> CtxPayload p)))"
  unfolding onContextBuilding_def Let_def plugin_contextField_def extendContext_def by simp

text \<open>
  C7. The context-build hook fails with a plain \<open>Error\<close>, which is no
  \<^verbatim>\<open>unauthorizedError\<close> of any message, whenever \<^verbatim>\<open>context.request\<close> is missing
  or \<^verbatim>\<open>null\<close>. When the context holds a request and the weak map has a payload for
  it, the hook returns the context with exactly that payload under the configured field
  name, \<^verbatim>\<open>auth\<close> by default. In particular, the identity \<open>authorize\<close> returned to
  the pre-parse hook for a request is the one the context-build hook attaches.
\<close>

theorem onContextBuilding_contract:
  "((ctx ''request'' = None \<or> ctx ''request'' = Some CtxNull) \<longrightarrow>
      onContextBuilding opts ctx w =
        Inl (Error ''Request is not available on context! Make sure you use this plugin with GraphQL Yoga.'') \<and>
      (\<forall>m. onContextBuilding opts ctx w \<noteq> Inl (unauthorizedError m))) \<and>
   (ctx ''request'' = Some (CtxRequest r) \<and> payloadByRequest w (req_id r) = Some p \<longrightarrow>
      onContextBuilding opts ctx w =
        Inr (ctx((case extendContextField opts of None \<Rightarrow> ''auth'' | Some f \<Rightarrow> f) \<mapsto>
                   CtxPayload p))) \<and>
   (plugin_getToken opts params = Inr (Some t) \<and>
    authorize h opts t (Some PayloadByRequest) (Some (request params)) w0 = (Inr a, w1) \<and>
    ctx ''request'' = Some (CtxRequest (request params)) \<longrightarrow>
      onRequestParse h opts params w0 = (Inr (), w1) \<and>
      onContextBuilding opts ctx w1 =
        Inr (ctx((case extendContextField opts of None \<Rightarrow> ''auth'' | Some f \<Rightarrow> f) \<mapsto>
                   CtxPayload a)))"
proof (intro conjI impI)
  assume a: "ctx ''request'' = None \<or> ctx ''request'' = Some CtxNull"
  show "onContextBuilding opts ctx w =
        Inl (Error ''Request is not available on context! Make sure you use this plugin with GraphQL Yoga.'')"
    using a by (rule onContextBuilding_no_request)
  show "\<forall>m. onContextBuilding opts ctx w \<noteq> Inl (unauthorizedError m)"
    using onContextBuilding_no_request [of ctx opts w] a unfolding unauthorizedError_def by simp
next
  assume "ctx ''request'' = Some (CtxRequest r) \<and> payloadByRequest w (req_id r) = Some p"
  then show "onContextBuilding opts ctx w =
        Inr (ctx((case extendContextField opts of None \<Rightarrow> ''auth'' | Some f \<Rightarrow> f) \<mapsto>
                   CtxPayload p))"
    by (simp add: onContextBuilding_request plugin_contextField_def)
next
  assume b: "plugin_getToken opts params = Inr (Some t) \<and>
    authorize h opts t (Some PayloadByRequest) (Some (request params)) w0 = (Inr a, w1) \<and>
    ctx ''request'' = Some (CtxRequest (request params))"
  then show "onRequestParse h opts params w0 = (Inr (), w1)"
    by (simp add: onRequestParse_token)
  from b have "payloadByRequest w1 (req_id (request params)) = Some a"
    by (blast intro: authorize_records)
  with b show "onContextBuilding opts ctx w1 =
        Inr (ctx((case extendContextField opts of None \<Rightarrow> ''auth'' | Some f \<Rightarrow> f) \<mapsto>
                   CtxPayload a))"
    by (simp add: onContextBuilding_request plugin_contextField_def)
qed

text \<open>
  The theorem at a context without a request, at a context whose request has a payload
  in the weak map, and at a request with \<^verbatim>\<open>authorization: Bearer T\<close> that the
  pre-parse hook has handled.
\<close>

theorem onContextBuilding_contract_witness:
  "onContextBuilding example_options Map.empty example_world =
     Inl (Error ''Request is not available on context! Make sure you use this plugin with GraphQL Yoga.'') \<and>
   onContextBuilding example_options [''request'' \<mapsto> CtxRequest (example_request [])]
       (example_world\<lparr>payloadByRequest := [1 \<mapsto> example_identity ''T'' ''admin'']\<rparr>) =
     Inr [''request'' \<mapsto> CtxRequest (example_request []),
          ''auth'' \<mapsto> CtxPayload (example_identity ''T'' ''admin'')] \<and>
   fst (onRequestParse (example_host (Inr (session_of_role ''admin'')) []) example_options
          (example_params [(''authorization'', ''Bearer T'')]) example_world) = Inr () \<and>
   onContextBuilding example_options
       [''request'' \<mapsto> CtxRequest (example_request [(''authorization'', ''Bearer T'')])]
       (snd (onRequestParse (example_host (Inr (session_of_role ''admin'')) []) example_options
          (example_params [(''authorization'', ''Bearer T'')]) example_world)) =
     Inr [''request'' \<mapsto> CtxRequest (example_request [(''authorization'', ''Bearer T'')]),
          ''auth'' \<mapsto> CtxPayload (example_identity ''T'' ''admin'')]"
proof -
  let ?h = "example_host (Inr (session_of_role ''admin'')) []"
  let ?params = "example_params [(''authorization'', ''Bearer T'')]"
  let ?ctx = "[''request'' \<mapsto> CtxRequest (example_request [(''authorization'', ''Bearer T'')])]"
  let ?ctx2 = "[''request'' \<mapsto> CtxRequest (example_request [])]"
  let ?w2 = "example_world\<lparr>payloadByRequest := [1 \<mapsto> example_identity ''T'' ''admin'']\<rparr>"
  let ?run = "authorize ?h example_options ''T'' (Some PayloadByRequest) (Some (request ?params))
                example_world"
  have n: "(Map.empty :: yoga_context) ''request'' = None \<or>
           (Map.empty :: yoga_context) ''request'' = Some CtxNull"
    by simp
  have one: "onContextBuilding example_options Map.empty example_world =
     Inl (Error ''Request is not available on context! Make sure you use this plugin with GraphQL Yoga.'')"
    using onContextBuilding_contract [of Map.empty example_options example_world, THEN conjunct1]
      n by blast
  have two: "onContextBuilding example_options ?ctx2 ?w2 =
     Inr [''request'' \<mapsto> CtxRequest (example_request []),
          ''auth'' \<mapsto> CtxPayload (example_identity ''T'' ''admin'')]"
    using onContextBuilding_contract [of ?ctx2 example_options ?w2 "example_request []"
        "example_identity ''T'' ''admin''", THEN conjunct2, THEN conjunct1]
    by (simp add: example_defs)
  have tok: "plugin_getToken example_options ?params = Inr (Some ''T'')"
    by (simp add: plugin_getToken_def defaultGetToken_def headers_get_def example_defs)
  have run: "?run = (Inr (example_identity ''T'' ''admin''), snd ?run)"
    by (rule prod_eqI) (simp_all add: authorize_defs example_defs example_identity_def)
  have req: "?ctx ''request'' = Some (CtxRequest (request ?params))"
    by (simp add: example_defs)
  note three = onContextBuilding_contract [of ?ctx example_options example_world _ _ ?params
        "''T''" ?h example_world "example_identity ''T'' ''admin''" "snd ?run",
        THEN conjunct2, THEN conjunct2, rule_format, OF conjI [OF tok conjI [OF run req]]]
  have p: "onRequestParse ?h example_options ?params example_world = (Inr (), snd ?run)"
    using three by (rule conjunct1)
  have three_a: "fst (onRequestParse ?h example_options ?params example_world) = Inr ()"
    unfolding p by simp
  have three_b: "onContextBuilding example_options ?ctx
       (snd (onRequestParse ?h example_options ?params example_world)) =
     Inr [''request'' \<mapsto> CtxRequest (example_request [(''authorization'', ''Bearer T'')]),
          ''auth'' \<mapsto> CtxPayload (example_identity ''T'' ''admin'')]"
    using three [THEN conjunct2] unfolding p by (simp add: example_options_def)
  from one two three_a three_b show ?thesis by simp
qed

subsection \<open>Role enforcement and the kind of the failure\<close>

text \<open>
  C1. With \<^verbatim>\<open>allowedRoles: ['admin']\<close> and a user of role \<^verbatim>\<open>editor\<close>, the three
  paths of \<open>authorize\<close> are evaluated: without a cache, and with a cache on a miss, the
  failure carries the invalid-token message (the bare \<^verbatim>\<open>catch\<close> replaces the error
  \<open>handleAuthData\<close> threw); on a cache hit it carries the invalid-permissions message,
  as it does in the inline form of the hook for the same request.
\<close>

theorem authorize_editor_on_each_path:
  "fst (authorize (example_host (Inr (session_of_role ''editor'')) [])
          (example_options\<lparr>allowedRoles := Some [''admin'']\<rparr>)
          ''T'' None None example_world) =
     Inl (GraphQLError ''The provided access token is invalid.'' (Some 401)) \<and>
   fst (authorize
          (example_host (Inr (session_of_role ''editor''))
             [(session_text_of_role ''editor'', session_of_role ''editor'')])
          (example_options\<lparr>redis := Some RedisClient, allowedRoles := Some [''admin'']\<rparr>)
          ''T'' None None example_world) =
     Inl (GraphQLError ''The provided access token is invalid.'' (Some 401)) \<and>
   fst (authorize
          (example_host (Inr (session_of_role ''editor''))
             [(session_text_of_role ''editor'', session_of_role ''editor'')])
          (example_options\<lparr>redis := Some RedisClient, allowedRoles := Some [''admin'']\<rparr>)
          ''T'' None None
          (cached_world ''tokens:T'' (session_text_of_role ''editor''))) =
     Inl (GraphQLError ''You do not have the necessary permissions to access this resource.''
            (Some 401)) \<and>
   fst (onRequestParse_inline (example_host (Inr (session_of_role ''editor'')) [])
          (example_options\<lparr>allowedRoles := Some [''admin'']\<rparr>)
          (example_params [(''authorization'', ''Bearer T'')]) example_world) =
     Inl (GraphQLError ''You do not have the necessary permissions to access this resource.''
            (Some 401))"
  by (simp add: authorize_defs example_defs session_text_of_role_def cached_world_def
      onRequestParse_inline_def onRequestParse_inline_try_def defaultGetToken_def
      headers_get_def)

text \<open>
  C4. A user record without a \<^verbatim>\<open>role\<close>, checked against \<^verbatim>\<open>allowedRoles: ['admin']\<close>:
  \<open>handleAuthData\<close> reads the role as \<^verbatim>\<open>user\<close> and throws the invalid-permissions
  error, and \<open>authorize\<close> without a cache turns that into the invalid-token error. With
  \<^verbatim>\<open>allowedRoles: ['user']\<close> the same data is accepted.
\<close>

theorem authorize_default_role_rejection:
  "fst (handleAuthData session_without_role
          \<lparr>client_baseURL = None, client_plugins = None, client_token = ''T''\<rparr>
          [''admin''] default_messages None None example_world) =
     Inl (GraphQLError ''You do not have the necessary permissions to access this resource.''
            (Some 401)) \<and>
   fst (authorize (example_host (Inr session_without_role) [])
          (example_options\<lparr>allowedRoles := Some [''admin'']\<rparr>)
          ''T'' None None example_world) =
     Inl (GraphQLError ''The provided access token is invalid.'' (Some 401)) \<and>
   fst (authorize (example_host (Inr session_without_role) [])
          (example_options\<lparr>allowedRoles := Some [''user'']\<rparr>)
          ''T'' None None example_world) =
     Inr \<lparr>client = \<lparr>client_baseURL = None, client_plugins = None, client_token = ''T''\<rparr>,
          session = JObj [(''id'', JStr ''s1'')], user = JObj [(''id'', JStr ''u1'')]\<rparr>"
  by (simp add: authorize_defs example_defs session_without_role_def)

subsection \<open>Requests without a credential\<close>

lemma defaultGetToken_no_header:
  "headers_get (request params) ''authorization'' = None \<Longrightarrow> defaultGetToken params = Inr None"
  by (simp add: defaultGetToken_def)

text \<open>
  C5. For a request without an \<^verbatim>\<open>authorization\<close> header, read by the default
  extractor: when \<^verbatim>\<open>requireAuth\<close> is true, the pre-parse hook fails with
  \<^verbatim>\<open>unauthorizedError(messages.authRequired)\<close> and changes nothing; otherwise the hook
  returns normally and changes nothing, and the context-build hook, given a context that
  holds this request (for which the weak map has no payload), returns the context as it
  was.
\<close>

theorem no_authorization_header:
  assumes "getToken opts = None"
    and "headers_get (request params) ''authorization'' = None"
  shows "(requireAuth opts = Some True \<longrightarrow>
           onRequestParse h opts params w =
             (Inl (GraphQLError (plugin_authRequired opts) (Some 401)), w)) \<and>
         (requireAuth opts \<noteq> Some True \<longrightarrow>
           onRequestParse h opts params w = (Inr (), w) \<and>
           (ctx ''request'' = Some (CtxRequest (request params)) \<and>
            payloadByRequest w (req_id (request params)) = None \<longrightarrow>
              onContextBuilding opts ctx (snd (onRequestParse h opts params w)) = Inr ctx))"
proof -
  have tok: "plugin_getToken opts params = Inr None"
    using assms by (simp add: plugin_getToken_def defaultGetToken_no_header)
  show ?thesis
    by (simp add: onRequestParse_absent [OF tok] unauthorizedError_def
        onContextBuilding_request)
qed

text \<open>
  The theorem at a request with no headers, with \<^verbatim>\<open>requireAuth: true\<close> and without.
\<close>

theorem no_authorization_header_witness:
  "getToken example_options = None \<and>
   headers_get (request (example_params [])) ''authorization'' = None \<and>
   onRequestParse (example_host (Inl (Thrown ''network'')) [])
       (example_options\<lparr>requireAuth := Some True\<rparr>) (example_params []) example_world =
     (Inl (GraphQLError ''Authentication is required to access this resource.'' (Some 401)),
      example_world) \<and>
   onRequestParse (example_host (Inl (Thrown ''network'')) [])
       example_options (example_params []) example_world = (Inr (), example_world) \<and>
   onContextBuilding example_options [''request'' \<mapsto> CtxRequest (example_request [])]
       example_world = Inr [''request'' \<mapsto> CtxRequest (example_request [])]"
proof -
  let ?h = "example_host (Inl (Thrown ''network'')) []"
  let ?ctx = "[''request'' \<mapsto> CtxRequest (example_request [])]"
  have g: "getToken example_options = None"
    and g': "getToken (example_options\<lparr>requireAuth := Some True\<rparr>) = None"
    by (simp_all add: example_options_def)
  have hd: "headers_get (request (example_params [])) ''authorization'' = None"
    by (simp add: headers_get_def example_defs)
  have one: "onRequestParse ?h (example_options\<lparr>requireAuth := Some True\<rparr>) (example_params [])
       example_world =
     (Inl (GraphQLError ''Authentication is required to access this resource.'' (Some 401)),
      example_world)"
    using no_authorization_header [OF g' hd, of ?h example_world ?ctx, THEN conjunct1]
    by (simp add: plugin_authRequired_def example_options_def)
  note th = no_authorization_header [OF g hd, of ?h example_world ?ctx, THEN conjunct2]
  have r: "requireAuth example_options \<noteq> Some True"
    by (simp add: example_options_def)
  have two: "onRequestParse ?h example_options (example_params []) example_world =
      (Inr (), example_world)"
    using th r by blast
  have c: "?ctx ''request'' = Some (CtxRequest (request (example_params []))) \<and>
           payloadByRequest example_world (req_id (request (example_params []))) = None"
    by (simp add: example_defs)
  have three: "onContextBuilding example_options ?ctx example_world = Inr ?ctx"
    using th r c unfolding two by simp
  from g hd one two three show ?thesis by simp
qed

subsection \<open>Failures and outbound calls of \<^verbatim>\<open>authorize\<close>\<close>

lemma get_prop_error: "get_prop v name = Inl e \<Longrightarrow> e = TypeError"
  by (cases v) auto

lemma role_check_error:
  "role_check data roles msgs = Inl e \<Longrightarrow>
   e = TypeError \<or> e = unauthorizedError (invalidPermissions msgs)"
  by (auto simp: role_check_def Let_def split: sum.splits if_splits dest: get_prop_error)

lemma handleAuthData_error:
  "fst (handleAuthData data cl roles msgs pbr req w) = Inl e \<Longrightarrow>
   e = TypeError \<or> e = unauthorizedError (invalidPermissions msgs)"
  by (auto simp: handleAuthData_def Let_def split: sum.splits if_splits
      dest: get_prop_error role_check_error)

lemma try_hit_error:
  "fst (authorize_try_hit h cl text roles msgs pbr req w) = Inl e \<Longrightarrow> is_GraphQLError e \<Longrightarrow>
   e = unauthorizedError (invalidPermissions msgs)"
  by (auto simp: authorize_try_hit_def split: option.splits dest: handleAuthData_error)

lemma redis_get_error:
  "fst (redis_get h key w) = Inl e \<Longrightarrow> redis_get_fault h key = Some e"
  by (auto simp: redis_get_def Let_def split: option.splits)

lemma redis_get_trace: "trace (snd (redis_get h key w)) = trace w @ [CacheRead key]"
  by (simp add: redis_get_def Let_def split: option.splits)

lemma authorize_error:
  assumes "fst (authorize h opts token pbr req w) = Inl e"
  shows "e = unauthorizedError (invalidToken (authorize_messages opts)) \<or>
         e = unauthorizedError (invalidPermissions (authorize_messages opts)) \<or>
         (redis opts = Some RedisClient \<and>
          redis_get_fault h (authorize_cacheKey opts token) = Some e)"
proof (cases "redis opts")
  case None
  with assms show ?thesis
    by (auto simp: authorize_direct split: prod.splits sum.splits)
next
  case (Some c)
  then have r: "redis opts = Some RedisClient" by (cases c) simp
  obtain res w1 where g: "redis_get h (authorize_cacheKey opts token) w = (res, w1)"
    by (cases "redis_get h (authorize_cacheKey opts token) w")
  show ?thesis
  proof (cases res)
    case (Inl e')
    with assms g r have "e = e'" by (simp add: authorize_cached)
    moreover from g Inl have "redis_get_fault h (authorize_cacheKey opts token) = Some e'"
      using redis_get_error [of h "authorize_cacheKey opts token" w e'] by simp
    ultimately show ?thesis using r by simp
  next
    case (Inr cached)
    show ?thesis
    proof (cases "case cached of None \<Rightarrow> None | Some [] \<Rightarrow> None | Some s \<Rightarrow> Some s")
      case None
      with assms g r Inr show ?thesis
        by (auto simp: authorize_cached split: prod.splits sum.splits)
    next
      case (Some s)
      obtain res2 w2 where t: "authorize_try_hit h (authorize_client h opts token) s
                       (authorize_roles opts) (authorize_messages opts) pbr req w1 = (res2, w2)"
        by (cases "authorize_try_hit h (authorize_client h opts token) s
                       (authorize_roles opts) (authorize_messages opts) pbr req w1")
      show ?thesis
      proof (cases res2)
        case (Inl ex)
        show ?thesis
        proof (cases "is_GraphQLError ex")
          case True
          with assms g r Inr Some t Inl have "e = ex" by (simp add: authorize_cached)
          moreover have "ex = unauthorizedError (invalidPermissions (authorize_messages opts))"
            using try_hit_error [of h "authorize_client h opts token" s "authorize_roles opts"
                "authorize_messages opts" pbr req w1 ex] t Inl True by simp
          ultimately show ?thesis by simp
        next
          case False
          with assms g r Inr Some t Inl show ?thesis by (simp add: authorize_cached)
        qed
      next
        case (Inr a)
        with assms g r \<open>res = Inr cached\<close> Some t show ?thesis by (simp add: authorize_cached)
      qed
    qed
  qed
qed

lemma authorize_cached_world:
  assumes "redis opts = Some RedisClient"
  shows "snd (authorize h opts token pbr req w) =
     (case fst (redis_get h (authorize_cacheKey opts token) w) of
        Inl e \<Rightarrow> snd (redis_get h (authorize_cacheKey opts token) w)
      | Inr cached \<Rightarrow>
          if cached = None \<or> cached = Some []
          then snd (authorize_try_miss h (authorize_client h opts token)
                      (authorize_cacheKey opts token) (authorize_ttl opts)
                      (authorize_roles opts) (authorize_messages opts) pbr req
                      (snd (redis_get h (authorize_cacheKey opts token) w)))
          else snd (authorize_try_hit h (authorize_client h opts token) (the cached)
                      (authorize_roles opts) (authorize_messages opts) pbr req
                      (snd (redis_get h (authorize_cacheKey opts token) w))))"
  by (auto simp: authorize_cached [OF assms] split: prod.splits sum.splits option.splits
      list.splits)

lemma try_miss_trace:
  "trace (snd (authorize_try_miss h cl key ttl roles msgs pbr req w)) =
     trace w @ SessionLookup (client_token cl) #
       (case getSession h cl of
          Inl _ \<Rightarrow> []
        | Inr data \<Rightarrow>
            if \<not> truthy (get_prop_optional data ''session'') then []
            else (case JSON_stringify h data of
                    None \<Rightarrow> []
                  | Some text \<Rightarrow> [CacheWrite key ttl text]))"
  by (auto simp: authorize_try_miss_def client_getSession_def redis_setEx_def Let_def
      handleAuthData_trace split: sum.splits option.splits)

lemma try_hit_trace: "trace (snd (authorize_try_hit h cl text roles msgs pbr req w)) = trace w"
  by (simp add: authorize_try_hit_def handleAuthData_trace split: option.splits)

lemma authorize_cached_trace:
  assumes "redis opts = Some RedisClient"
  shows "trace (snd (authorize h opts token pbr req w)) =
     trace w @ CacheRead (authorize_cacheKey opts token) #
       (case fst (redis_get h (authorize_cacheKey opts token) w) of
          Inl e \<Rightarrow> []
        | Inr cached \<Rightarrow>
            if cached = None \<or> cached = Some []
            then SessionLookup token #
              (case getSession h (authorize_client h opts token) of
                 Inl _ \<Rightarrow> []
               | Inr data \<Rightarrow>
                   if \<not> truthy (get_prop_optional data ''session'') then []
                   else (case JSON_stringify h data of
                           None \<Rightarrow> []
                         | Some text \<Rightarrow>
                             [CacheWrite (authorize_cacheKey opts token) (authorize_ttl opts)
                                text]))
            else [])"
  unfolding authorize_cached_world [OF assms]
  by (simp add: redis_get_trace try_miss_trace try_hit_trace authorize_client_token
      split: sum.splits)

lemma authorize_makes_a_call: "trace (snd (authorize h opts token pbr req w)) \<noteq> trace w"
proof (cases "redis opts")
  case None
  then show ?thesis
    by (simp add: authorize_direct_trace)
next
  case (Some c)
  then have r: "redis opts = Some RedisClient" by (cases c) simp
  show ?thesis unfolding authorize_cached_trace [OF r] by simp
qed

subsection \<open>The empty credential\<close>

lemma defaultGetToken_header:
  "headers_get (request params) ''authorization'' = Some header \<Longrightarrow>
   defaultGetToken params =
     (if header = [] then Inr None
      else (let pieces = split (CHR '' '') header;
                 type = (case pieces of [] \<Rightarrow> None | t # _ \<Rightarrow> Some t);
                 token = (case pieces of _ # t # _ \<Rightarrow> Some t | _ \<Rightarrow> None)
             in
             if type \<noteq> Some ''Bearer''
             then Inl (unauthorizedError
                         (''Unsupported token type provided: '' @ [CHR 0x22] @
                          (case type of None \<Rightarrow> ''undefined'' | Some t \<Rightarrow> t) @ [CHR 0x22]))
             else Inr token))"
  by (simp add: defaultGetToken_def)

text \<open>
  C9. When the extractor yields the empty string, the pre-parse hook does what
  \<open>authorize\<close> does for the token \<^verbatim>\<open>""\<close>, whatever \<^verbatim>\<open>requireAuth\<close> is: at
  least one outbound call is made, and a failure is authorize's invalid-token or
  invalid-permissions error or the failure of the cache read, so it is not the
  auth-required error when that message differs from those. The default extractor
  yields the empty string for the header \<^verbatim>\<open>"Bearer "\<close>; for the header
  \<^verbatim>\<open>"Bearer"\<close> it yields no credential, and the hook then fails with the auth-required
  error exactly when \<^verbatim>\<open>requireAuth\<close> is true.
\<close>

theorem empty_credential_is_a_credential:
  "(plugin_getToken opts params = Inr (Some []) \<longrightarrow>
      onRequestParse h opts params w =
        (case authorize h opts [] (Some PayloadByRequest) (Some (request params)) w of
           (Inl e, w1) \<Rightarrow> (Inl e, w1)
         | (Inr _, w1) \<Rightarrow> (Inr (), w1)) \<and>
      trace (snd (onRequestParse h opts params w)) \<noteq> trace w \<and>
      (\<forall>e. fst (onRequestParse h opts params w) = Inl e \<longrightarrow>
         e = unauthorizedError (invalidToken (authorize_messages opts)) \<or>
         e = unauthorizedError (invalidPermissions (authorize_messages opts)) \<or>
         redis_get_fault h (authorize_cacheKey opts []) = Some e) \<and>
      (plugin_authRequired opts \<noteq> invalidToken (authorize_messages opts) \<and>
       plugin_authRequired opts \<noteq> invalidPermissions (authorize_messages opts) \<and>
       redis_get_fault h (authorize_cacheKey opts []) \<noteq>
         Some (unauthorizedError (plugin_authRequired opts)) \<longrightarrow>
       fst (onRequestParse h opts params w) \<noteq>
         Inl (unauthorizedError (plugin_authRequired opts)))) \<and>
   (headers_get (request params) ''authorization'' = Some ''Bearer '' \<longrightarrow>
      defaultGetToken params = Inr (Some [])) \<and>
   (headers_get (request params) ''authorization'' = Some ''Bearer'' \<longrightarrow>
      defaultGetToken params = Inr None \<and>
      (getToken opts = None \<longrightarrow>
         onRequestParse h opts params w =
           (if requireAuth opts = Some True
            then (Inl (unauthorizedError (plugin_authRequired opts)), w)
            else (Inr (), w))))"
proof (intro conjI impI)
  assume tok: "plugin_getToken opts params = Inr (Some [])"
  let ?run = "authorize h opts [] (Some PayloadByRequest) (Some (request params)) w"
  show eq: "onRequestParse h opts params w =
        (case ?run of (Inl e, w1) \<Rightarrow> (Inl e, w1) | (Inr _, w1) \<Rightarrow> (Inr (), w1))"
    by (rule onRequestParse_token [OF tok])
  have w: "snd (onRequestParse h opts params w) = snd ?run"
    unfolding eq by (simp split: prod.splits sum.splits)
  show "trace (snd (onRequestParse h opts params w)) \<noteq> trace w"
    unfolding w by (rule authorize_makes_a_call)
  have f: "fst (onRequestParse h opts params w) = Inl e \<Longrightarrow> fst ?run = Inl e" for e
    unfolding eq by (auto split: prod.splits sum.splits)
  show cls: "\<forall>e. fst (onRequestParse h opts params w) = Inl e \<longrightarrow>
         e = unauthorizedError (invalidToken (authorize_messages opts)) \<or>
         e = unauthorizedError (invalidPermissions (authorize_messages opts)) \<or>
         redis_get_fault h (authorize_cacheKey opts []) = Some e"
    using authorize_error [of h opts "[]" "Some PayloadByRequest" "Some (request params)" w] f
    by blast
  assume d: "plugin_authRequired opts \<noteq> invalidToken (authorize_messages opts) \<and>
       plugin_authRequired opts \<noteq> invalidPermissions (authorize_messages opts) \<and>
       redis_get_fault h (authorize_cacheKey opts []) \<noteq>
         Some (unauthorizedError (plugin_authRequired opts))"
  show "fst (onRequestParse h opts params w) \<noteq>
         Inl (unauthorizedError (plugin_authRequired opts))"
  proof
    assume "fst (onRequestParse h opts params w) =
         Inl (unauthorizedError (plugin_authRequired opts))"
    with cls have "unauthorizedError (plugin_authRequired opts) =
           unauthorizedError (invalidToken (authorize_messages opts)) \<or>
         unauthorizedError (plugin_authRequired opts) =
           unauthorizedError (invalidPermissions (authorize_messages opts)) \<or>
         redis_get_fault h (authorize_cacheKey opts []) =
           Some (unauthorizedError (plugin_authRequired opts))"
      by blast
    with d show False by (simp add: unauthorizedError_def)
  qed
next
  assume "headers_get (request params) ''authorization'' = Some ''Bearer ''"
  then show "defaultGetToken params = Inr (Some [])"
    by (simp add: defaultGetToken_header)
next
  assume b: "headers_get (request params) ''authorization'' = Some ''Bearer''"
  then show n: "defaultGetToken params = Inr None"
    by (simp add: defaultGetToken_header)
  assume "getToken opts = None"
  with n have "plugin_getToken opts params = Inr None"
    by (simp add: plugin_getToken_def)
  then show "onRequestParse h opts params w =
           (if requireAuth opts = Some True
            then (Inl (unauthorizedError (plugin_authRequired opts)), w)
            else (Inr (), w))"
    by (rule onRequestParse_absent)
qed

text \<open>
  The theorem at the headers \<^verbatim>\<open>"Bearer "\<close> and \<^verbatim>\<open>"Bearer"\<close>, with
  \<^verbatim>\<open>requireAuth: true\<close>, default messages and no cache.
\<close>

theorem empty_credential_is_a_credential_witness:
  "defaultGetToken (example_params [(''authorization'', ''Bearer '')]) = Inr (Some []) \<and>
   trace (snd (onRequestParse (example_host (Inl (Thrown ''network'')) [])
                 (example_options\<lparr>requireAuth := Some True\<rparr>)
                 (example_params [(''authorization'', ''Bearer '')]) example_world)) \<noteq> [] \<and>
   fst (onRequestParse (example_host (Inl (Thrown ''network'')) [])
          (example_options\<lparr>requireAuth := Some True\<rparr>)
          (example_params [(''authorization'', ''Bearer '')]) example_world) \<noteq>
     Inl (GraphQLError ''Authentication is required to access this resource.'' (Some 401)) \<and>
   defaultGetToken (example_params [(''authorization'', ''Bearer'')]) = Inr None \<and>
   onRequestParse (example_host (Inl (Thrown ''network'')) [])
       (example_options\<lparr>requireAuth := Some True\<rparr>)
       (example_params [(''authorization'', ''Bearer'')]) example_world =
     (Inl (GraphQLError ''Authentication is required to access this resource.'' (Some 401)),
      example_world)"
proof -
  let ?h = "example_host (Inl (Thrown ''network'')) []"
  let ?opts = "example_options\<lparr>requireAuth := Some True\<rparr>"
  let ?p1 = "example_params [(''authorization'', ''Bearer '')]"
  let ?p2 = "example_params [(''authorization'', ''Bearer'')]"
  have h1: "headers_get (request ?p1) ''authorization'' = Some ''Bearer ''"
    and h2: "headers_get (request ?p2) ''authorization'' = Some ''Bearer''"
    by (simp_all add: headers_get_def example_defs)
  have g: "getToken ?opts = None"
    by (simp add: example_options_def)
  note th1 = empty_credential_is_a_credential [of ?opts ?p1 ?h example_world]
  note th2 = empty_credential_is_a_credential [of ?opts ?p2 ?h example_world]
  have a: "defaultGetToken ?p1 = Inr (Some [])"
    using th1 [THEN conjunct2, THEN conjunct1] h1 by blast
  then have tok: "plugin_getToken ?opts ?p1 = Inr (Some [])"
    by (simp add: plugin_getToken_def g)
  have e: "trace example_world = []"
    by (simp add: example_world_def)
  have b: "trace (snd (onRequestParse ?h ?opts ?p1 example_world)) \<noteq> []"
    using th1 [THEN conjunct1, rule_format, OF tok, THEN conjunct2, THEN conjunct1]
    unfolding e .
  have m: "plugin_authRequired ?opts = ''Authentication is required to access this resource.''"
    "invalidToken (authorize_messages ?opts) = ''The provided access token is invalid.''"
    "invalidPermissions (authorize_messages ?opts) =
       ''You do not have the necessary permissions to access this resource.''"
    by (simp_all add: plugin_authRequired_def authorize_messages_def default_messages_def
        example_options_def)
  have d: "plugin_authRequired ?opts \<noteq> invalidToken (authorize_messages ?opts) \<and>
       plugin_authRequired ?opts \<noteq> invalidPermissions (authorize_messages ?opts) \<and>
       redis_get_fault ?h (authorize_cacheKey ?opts []) \<noteq>
         Some (unauthorizedError (plugin_authRequired ?opts))"
    unfolding m by (simp add: example_host_def)
  have c: "fst (onRequestParse ?h ?opts ?p1 example_world) \<noteq>
     Inl (GraphQLError ''Authentication is required to access this resource.'' (Some 401))"
    using th1 [THEN conjunct1, rule_format, OF tok, THEN conjunct2, THEN conjunct2,
        THEN conjunct2, rule_format, OF d]
    unfolding m unauthorizedError_def .
  have n: "defaultGetToken ?p2 = Inr None"
    using th2 [THEN conjunct2, THEN conjunct2, rule_format, OF h2, THEN conjunct1] .
  have r: "requireAuth ?opts = Some True"
    by (simp add: example_options_def)
  have f: "onRequestParse ?h ?opts ?p2 example_world =
     (Inl (GraphQLError ''Authentication is required to access this resource.'' (Some 401)),
      example_world)"
    using th2 [THEN conjunct2, THEN conjunct2, rule_format, OF h2, THEN conjunct2, rule_format,
        OF g]
    unfolding m unauthorizedError_def r by simp
  from a b c n f show ?thesis by blast
qed

subsection \<open>The result of \<^verbatim>\<open>authorize\<close> on each path\<close>

lemma handleAuthData_fst:
  "fst (handleAuthData data cl roles msgs pbr req w) = handleAuthData_result data cl roles msgs"
  by (simp add: handleAuthData_def handleAuthData_result_def Let_def split: sum.splits)

lemma try_direct_fst:
  "getSession h cl = Inr data \<Longrightarrow> truthy (get_prop_optional data ''session'') \<Longrightarrow>
   fst (authorize_try_direct h cl roles msgs pbr req w) = handleAuthData_result data cl roles msgs"
  by (simp add: authorize_try_direct_def client_getSession_def handleAuthData_fst)

lemma try_miss_fst:
  "getSession h cl = Inr data \<Longrightarrow> truthy (get_prop_optional data ''session'') \<Longrightarrow>
   JSON_stringify h data = Some str \<Longrightarrow> redis_setEx_fault h key ttl str = None \<Longrightarrow>
   fst (authorize_try_miss h cl key ttl roles msgs pbr req w) =
     handleAuthData_result data cl roles msgs"
  by (simp add: authorize_try_miss_def client_getSession_def redis_setEx_def Let_def
      handleAuthData_fst)

lemma try_hit_fst:
  "JSON_parse h text = Some data \<Longrightarrow>
   fst (authorize_try_hit h cl text roles msgs pbr req w) =
     handleAuthData_result data cl roles msgs"
  by (simp add: authorize_try_hit_def handleAuthData_fst)

lemma authorize_direct_fst:
  "redis opts = None \<Longrightarrow>
   fst (authorize h opts token pbr req w) =
     (case fst (authorize_try_direct h (authorize_client h opts token) (authorize_roles opts)
             (authorize_messages opts) pbr req w) of
        Inl _ \<Rightarrow> Inl (unauthorizedError (invalidToken (authorize_messages opts)))
      | Inr auth \<Rightarrow> Inr auth)"
  by (simp add: authorize_direct split: prod.splits sum.splits)

lemma authorize_cached_fst:
  assumes "redis opts = Some RedisClient"
  shows "fst (authorize h opts token pbr req w) =
     (case fst (redis_get h (authorize_cacheKey opts token) w) of
        Inl e \<Rightarrow> Inl e
      | Inr cached \<Rightarrow>
          if cached = None \<or> cached = Some []
          then (case fst (authorize_try_miss h (authorize_client h opts token)
                      (authorize_cacheKey opts token) (authorize_ttl opts)
                      (authorize_roles opts) (authorize_messages opts) pbr req
                      (snd (redis_get h (authorize_cacheKey opts token) w))) of
                  Inl _ \<Rightarrow> Inl (unauthorizedError (invalidToken (authorize_messages opts)))
                | Inr auth \<Rightarrow> Inr auth)
          else (case fst (authorize_try_hit h (authorize_client h opts token) (the cached)
                      (authorize_roles opts) (authorize_messages opts) pbr req
                      (snd (redis_get h (authorize_cacheKey opts token) w))) of
                  Inl ex \<Rightarrow>
                    if is_GraphQLError ex then Inl ex
                    else Inl (unauthorizedError (invalidToken (authorize_messages opts)))
                | Inr auth \<Rightarrow> Inr auth))"
  by (auto simp: authorize_cached [OF assms] split: prod.splits sum.splits option.splits
      list.splits)

lemma authorize_succeeds_iff:
  assumes "reaches_handleAuthData h opts token w data"
  shows "fst (authorize h opts token pbr req w) = Inr a \<longleftrightarrow>
     handleAuthData_result data (authorize_client h opts token) (authorize_roles opts)
       (authorize_messages opts) = Inr a"
proof (cases "redis opts")
  case None
  with assms have "fresh_session h opts token data"
    by (simp add: reaches_handleAuthData_def)
  then show ?thesis
    by (simp add: authorize_direct_fst [OF None] fresh_session_def try_direct_fst
        split: sum.splits)
next
  case (Some c)
  then have r: "redis opts = Some RedisClient" by (cases c) simp
  from assms r obtain cached where
    c: "fst (redis_get h (authorize_cacheKey opts token) w) = Inr cached"
    by (auto simp: reaches_handleAuthData_def cache_read_result_def split: sum.splits)
  show ?thesis
  proof (cases "cached = None \<or> cached = Some []")
    case True
    with assms r c obtain str where "fresh_session h opts token data"
      "JSON_stringify h data = Some str"
      "redis_setEx_fault h (authorize_cacheKey opts token) (authorize_ttl opts) str = None"
      by (auto simp: reaches_handleAuthData_def cache_read_result_def split: option.splits)
    with True c show ?thesis
      by (simp add: authorize_cached_fst [OF r] fresh_session_def
          try_miss_fst [where data = data and str = str] split: sum.splits)
  next
    case False
    with assms r c have "JSON_parse h (the cached) = Some data"
      by (auto simp: reaches_handleAuthData_def cache_read_result_def)
    moreover from False obtain s where "cached = Some s" "s \<noteq> []"
      by (cases cached) auto
    ultimately show ?thesis using c
      by (simp add: authorize_cached_fst [OF r] try_hit_fst [where data = data]
          split: sum.splits)
  qed
qed

subsection \<open>A falsy role\<close>

lemma role_check_falsy:
  assumes "get_prop data ''user'' = Inr u" and "get_prop u ''role'' = Inr r" and "\<not> truthy r"
  shows "role_check data roles msgs =
     (if ''user'' \<in> set roles then Inr ()
      else Inl (unauthorizedError (invalidPermissions msgs)))"
  using assms by (auto simp: role_check_def Let_def)

lemma get_prop_defined: "get_prop v name = Inr x \<Longrightarrow> \<exists>y. get_prop v other = Inr y"
  by (cases v) auto

text \<open>
  C10. For session data whose user has a falsy \<^verbatim>\<open>role\<close> (the empty string, and
  equally \<^verbatim>\<open>null\<close>, \<^verbatim>\<open>false\<close>, \<^verbatim>\<open>0\<close> or no role at all) and a non-empty
  allowed-role list, the role check passes exactly when \<^verbatim>\<open>'user'\<close> is in the list;
  so \<open>handleAuthData\<close> returns an identity exactly then, and so does every invocation
  of \<open>authorize\<close> that hands this data to it, on any of its three paths.
\<close>

theorem falsy_role_is_user:
  assumes "get_prop data ''user'' = Inr u" and "get_prop u ''role'' = Inr r"
    and "\<not> truthy r" and "roles \<noteq> []"
  shows "role_check data roles msgs =
       (if ''user'' \<in> set roles then Inr ()
        else Inl (unauthorizedError (invalidPermissions msgs))) \<and>
     ((\<exists>a. fst (handleAuthData data cl roles msgs pbr req w) = Inr a) \<longleftrightarrow>
        ''user'' \<in> set roles) \<and>
     (reaches_handleAuthData h opts token w data \<and> authorize_roles opts = roles \<longrightarrow>
        ((\<exists>a. fst (authorize h opts token pbr req w) = Inr a) \<longleftrightarrow> ''user'' \<in> set roles))"
proof -
  have rc: "role_check data roles msgs =
       (if ''user'' \<in> set roles then Inr ()
        else Inl (unauthorizedError (invalidPermissions msgs)))" for msgs
    by (rule role_check_falsy [OF assms(1-3)])
  obtain s where s: "get_prop data ''session'' = Inr s"
    using get_prop_defined [OF assms(1)] by blast
  have res: "(\<exists>a. handleAuthData_result data cl roles msgs = Inr a) \<longleftrightarrow> ''user'' \<in> set roles"
    for cl msgs
    using assms(1,4) s by (simp add: handleAuthData_result_def rc)
  have au: "reaches_handleAuthData h opts token w data \<and> authorize_roles opts = roles \<longrightarrow>
        ((\<exists>a. fst (authorize h opts token pbr req w) = Inr a) \<longleftrightarrow> ''user'' \<in> set roles)"
    using res [of "authorize_client h opts token" "authorize_messages opts"]
    by (auto simp: authorize_succeeds_iff)
  from rc res au show ?thesis
    by (simp add: handleAuthData_fst)
qed

text \<open>
  The theorem at a user whose role is the empty string, without a cache: accepted under
  \<^verbatim>\<open>allowedRoles: ['user', 'admin']\<close>, rejected under \<^verbatim>\<open>allowedRoles: ['admin']\<close>.
\<close>

theorem falsy_role_is_user_witness:
  "get_prop (session_of_role '''') ''user'' = Inr (JObj [(''id'', JStr ''u1''), (''role'', JStr '''')]) \<and>
   get_prop (JObj [(''id'', JStr ''u1''), (''role'', JStr '''')]) ''role'' = Inr (JStr '''') \<and>
   \<not> truthy (JStr '''') \<and>
   role_check (session_of_role '''') [''user'', ''admin''] default_messages = Inr () \<and>
   (\<exists>a. fst (authorize (example_host (Inr (session_of_role '''')) [])
               (example_options\<lparr>allowedRoles := Some [''user'', ''admin'']\<rparr>)
               ''T'' None None example_world) = Inr a) \<and>
   role_check (session_of_role '''') [''admin''] default_messages =
     Inl (GraphQLError ''You do not have the necessary permissions to access this resource.''
            (Some 401)) \<and>
   \<not> (\<exists>a. fst (authorize (example_host (Inr (session_of_role '''')) [])
                 (example_options\<lparr>allowedRoles := Some [''admin'']\<rparr>)
                 ''T'' None None example_world) = Inr a)"
proof -
  let ?d = "session_of_role ''''"
  let ?u = "JObj [(''id'', JStr ''u1''), (''role'', JStr '''')]"
  let ?h = "example_host (Inr ?d) []"
  let ?o1 = "example_options\<lparr>allowedRoles := Some [''user'', ''admin'']\<rparr>"
  let ?o2 = "example_options\<lparr>allowedRoles := Some [''admin'']\<rparr>"
  have u: "get_prop ?d ''user'' = Inr ?u"
    by (simp add: session_of_role_def)
  have r: "get_prop ?u ''role'' = Inr (JStr '''')"
    by simp
  have f: "\<not> truthy (JStr '''')"
    by simp
  have n1: "[''user'', ''admin''] \<noteq> []" and n2: "[''admin''] \<noteq> []"
    by simp_all
  have reach1: "reaches_handleAuthData ?h ?o1 ''T'' example_world ?d \<and>
                authorize_roles ?o1 = [''user'', ''admin'']"
    by (simp add: reaches_handleAuthData_def fresh_session_def authorize_roles_def
        get_prop_optional_def example_defs)
  have reach2: "reaches_handleAuthData ?h ?o2 ''T'' example_world ?d \<and>
                authorize_roles ?o2 = [''admin'']"
    by (simp add: reaches_handleAuthData_def fresh_session_def authorize_roles_def
        get_prop_optional_def example_defs)
  note t1 = falsy_role_is_user [OF u r f n1, where msgs = default_messages and h = ?h
      and opts = ?o1 and token = "''T''" and w = example_world and pbr = None and req = None]
  note t2 = falsy_role_is_user [OF u r f n2, where msgs = default_messages and h = ?h
      and opts = ?o2 and token = "''T''" and w = example_world and pbr = None and req = None]
  have a1: "role_check ?d [''user'', ''admin''] default_messages = Inr ()"
    using t1 [THEN conjunct1] by simp
  have b1: "\<exists>a. fst (authorize ?h ?o1 ''T'' None None example_world) = Inr a"
    using t1 [THEN conjunct2, THEN conjunct2, rule_format, OF reach1] by simp
  have a2: "role_check ?d [''admin''] default_messages =
     Inl (GraphQLError ''You do not have the necessary permissions to access this resource.''
            (Some 401))"
    using t2 [THEN conjunct1] by (simp add: unauthorizedError_def default_messages_def)
  have b2: "\<not> (\<exists>a. fst (authorize ?h ?o2 ''T'' None None example_world) = Inr a)"
    using t2 [THEN conjunct2, THEN conjunct2, rule_format, OF reach2] by simp
  from u r f a1 b1 a2 b2 show ?thesis by blast
qed

subsection \<open>A cache hit\<close>

lemma get_prop_non_nullish:
  "v \<noteq> JNull \<Longrightarrow> v \<noteq> JUndefined \<Longrightarrow> get_prop v name = Inr (get_prop_optional v name)"
  by (cases v) (auto simp: get_prop_optional_def)

text \<open>
  C8, as amended. On a cache hit (the read returned a non-empty string) whose text
  \<^verbatim>\<open>JSON.parse\<close> turns into a value other than \<^verbatim>\<open>null\<close> (it never returns
  \<^verbatim>\<open>undefined\<close>), and when the allowed-role list is empty or the value passes the
  role check, \<open>authorize\<close> returns an identity
  built from the value's \<^verbatim>\<open>session\<close> and \<^verbatim>\<open>user\<close>, whatever they are (a missing
  \<^verbatim>\<open>session\<close> gives \<^verbatim>\<open>undefined\<close>), and makes no call but the cache read.
\<close>

theorem cache_hit_skips_session_check:
  assumes "redis opts = Some RedisClient"
    and "cache_read_result h opts token w = Inr (Some str)" and "str \<noteq> []"
    and "JSON_parse h str = Some data"
    and "data \<noteq> JNull" and "data \<noteq> JUndefined"
    and "authorize_roles opts = [] \<or>
         role_check data (authorize_roles opts) (authorize_messages opts) = Inr ()"
  shows "fst (authorize h opts token pbr req w) =
       Inr \<lparr>client = authorize_client h opts token,
            session = get_prop_optional data ''session'',
            user = get_prop_optional data ''user''\<rparr> \<and>
     trace (snd (authorize h opts token pbr req w)) =
       trace w @ [CacheRead (authorize_cacheKey opts token)]"
proof -
  have reach: "reaches_handleAuthData h opts token w data"
    using assms(1-4) by (simp add: reaches_handleAuthData_def)
  have res: "handleAuthData_result data (authorize_client h opts token) (authorize_roles opts)
       (authorize_messages opts) =
       Inr \<lparr>client = authorize_client h opts token,
            session = get_prop_optional data ''session'',
            user = get_prop_optional data ''user''\<rparr>"
    using assms(7)
    by (auto simp: handleAuthData_result_def get_prop_non_nullish [OF assms(5,6)])
  have val: "fst (authorize h opts token pbr req w) =
       Inr \<lparr>client = authorize_client h opts token,
            session = get_prop_optional data ''session'',
            user = get_prop_optional data ''user''\<rparr>"
    using authorize_succeeds_iff [OF reach] res by simp
  have tr: "trace (snd (authorize h opts token pbr req w)) =
       trace w @ [CacheRead (authorize_cacheKey opts token)]"
    using assms(2,3)
    by (simp add: authorize_cached_trace [OF assms(1)] cache_read_result_def)
  from val tr show ?thesis by simp
qed

text \<open>
  The theorem at a cached object that has a user of role \<^verbatim>\<open>admin\<close> and no
  \<^verbatim>\<open>session\<close> property, with \<^verbatim>\<open>allowedRoles: ['admin']\<close>.
\<close>

theorem cache_hit_skips_session_check_witness:
  "cache_read_result (example_host (Inl (Thrown ''unused'')) [(sessionless_text, sessionless_data)])
      (example_options\<lparr>redis := Some RedisClient, allowedRoles := Some [''admin'']\<rparr>) ''T''
      (cached_world ''tokens:T'' sessionless_text) = Inr (Some sessionless_text) \<and>
   get_prop sessionless_data ''session'' = Inr JUndefined \<and>
   role_check sessionless_data [''admin''] default_messages = Inr () \<and>
   fst (authorize (example_host (Inl (Thrown ''unused'')) [(sessionless_text, sessionless_data)])
          (example_options\<lparr>redis := Some RedisClient, allowedRoles := Some [''admin'']\<rparr>)
          ''T'' None None (cached_world ''tokens:T'' sessionless_text)) =
     Inr \<lparr>client = \<lparr>client_baseURL = None, client_plugins = None, client_token = ''T''\<rparr>,
          session = JUndefined,
          user = JObj [(''id'', JStr ''u1''), (''role'', JStr ''admin'')]\<rparr> \<and>
   trace (snd (authorize
          (example_host (Inl (Thrown ''unused'')) [(sessionless_text, sessionless_data)])
          (example_options\<lparr>redis := Some RedisClient, allowedRoles := Some [''admin'']\<rparr>)
          ''T'' None None (cached_world ''tokens:T'' sessionless_text))) =
     [CacheRead ''tokens:T'']"
proof -
  let ?h = "example_host (Inl (Thrown ''unused'')) [(sessionless_text, sessionless_data)]"
  let ?o = "example_options\<lparr>redis := Some RedisClient, allowedRoles := Some [''admin'']\<rparr>"
  let ?w = "cached_world ''tokens:T'' sessionless_text"
  have r: "redis ?o = Some RedisClient"
    by (simp add: example_options_def)
  have c: "cache_read_result ?h ?o ''T'' ?w = Inr (Some sessionless_text)"
    by (simp add: cache_read_result_def redis_get_def authorize_cacheKey_def cached_world_def
        example_defs)
  have n: "sessionless_text \<noteq> []"
    by (simp add: sessionless_text_def)
  have p: "JSON_parse ?h sessionless_text = Some sessionless_data"
    by (simp add: example_host_def)
  have d: "sessionless_data \<noteq> JNull" "sessionless_data \<noteq> JUndefined"
    by (simp_all add: sessionless_data_def)
  have s: "get_prop sessionless_data ''session'' = Inr JUndefined"
    by (simp add: sessionless_data_def)
  have k: "role_check sessionless_data [''admin''] default_messages = Inr ()"
    by (simp add: role_check_def sessionless_data_def)
  have ro: "authorize_roles ?o = [''admin'']" and ms: "authorize_messages ?o = default_messages"
    by (simp_all add: authorize_roles_def authorize_messages_def example_options_def)
  have rc: "authorize_roles ?o = [] \<or>
         role_check sessionless_data (authorize_roles ?o) (authorize_messages ?o) = Inr ()"
    unfolding ro ms using k by simp
  note th = cache_hit_skips_session_check [OF r c n p d rc, of None None]
  have v: "fst (authorize ?h ?o ''T'' None None ?w) =
     Inr \<lparr>client = \<lparr>client_baseURL = None, client_plugins = None, client_token = ''T''\<rparr>,
          session = JUndefined,
          user = JObj [(''id'', JStr ''u1''), (''role'', JStr ''admin'')]\<rparr>"
    using th [THEN conjunct1]
    by (simp add: authorize_client_def sessionless_data_def get_prop_optional_def
        example_options_def example_host_def)
  have t: "trace (snd (authorize ?h ?o ''T'' None None ?w)) = [CacheRead ''tokens:T'']"
    using th [THEN conjunct2]
    by (simp add: authorize_cacheKey_def cached_world_def example_defs)
  from c s k v t show ?thesis by simp
qed

text \<open>
  C8 as stated fails at the cached text \<^verbatim>\<open>null\<close>: it parses as JSON and the
  allowed-role list is empty, yet reading \<^verbatim>\<open>data.session\<close> throws, and the
  \<^verbatim>\<open>catch\<close> of the hit path turns that into the invalid-token error.
\<close>

theorem cached_null_is_rejected:
  "JSON_parse (example_host (Inl (Thrown ''unused'')) [(''null'', JNull)]) ''null'' = Some JNull \<and>
   authorize_roles (example_options\<lparr>redis := Some RedisClient\<rparr>) = [] \<and>
   cache_read_result (example_host (Inl (Thrown ''unused'')) [(''null'', JNull)])
      (example_options\<lparr>redis := Some RedisClient\<rparr>) ''T''
      (cached_world ''tokens:T'' ''null'') = Inr (Some ''null'') \<and>
   fst (authorize (example_host (Inl (Thrown ''unused'')) [(''null'', JNull)])
          (example_options\<lparr>redis := Some RedisClient\<rparr>) ''T'' None None
          (cached_world ''tokens:T'' ''null'')) =
     Inl (GraphQLError ''The provided access token is invalid.'' (Some 401))"
  by (simp add: authorize_defs example_defs cached_world_def cache_read_result_def
      authorize_roles_def authorize_cacheKey_def)

subsection \<open>Caching\<close>















subsection \<open>The default token extractor\<close>

lemma split_pieces:
  "split sep s =
     takeWhile (\<lambda>c. c \<noteq> sep) s #
       (case dropWhile (\<lambda>c. c \<noteq> sep) s of [] \<Rightarrow> [] | _ # rest \<Rightarrow> split sep rest)"
  by (induction s) auto

lemma defaultGetToken_pieces:
  assumes "headers_get (request params) ''authorization'' = Some header" and "header \<noteq> []"
  shows "defaultGetToken params =
     (if takeWhile (\<lambda>c. c \<noteq> CHR '' '') header \<noteq> ''Bearer''
      then Inl (invalid_scheme_error (takeWhile (\<lambda>c. c \<noteq> CHR '' '') header))
      else (case dropWhile (\<lambda>c. c \<noteq> CHR '' '') header of
              [] \<Rightarrow> Inr None
            | _ # rest \<Rightarrow> Inr (Some (takeWhile (\<lambda>c. c \<noteq> CHR '' '') rest))))"
proof -
  obtain p ps where sp: "split (CHR '' '') header = p # ps"
    and p: "p = takeWhile (\<lambda>c. c \<noteq> CHR '' '') header"
    and ps: "ps = (case dropWhile (\<lambda>c. c \<noteq> CHR '' '') header of
                     [] \<Rightarrow> [] | _ # rest \<Rightarrow> split (CHR '' '') rest)"
    using split_pieces [of "CHR '' ''" header] by blast
  show ?thesis
  proof (cases "dropWhile (\<lambda>c. c \<noteq> CHR '' '') header")
    case Nil
    with ps have "ps = []" by simp
    with sp p show ?thesis
      unfolding Nil
      by (simp add: defaultGetToken_header [OF assms(1)] assms(2) Let_def
          unauthorizedError_def invalid_scheme_error_def)
  next
    case (Cons c rest)
    with ps have "ps = takeWhile (\<lambda>c. c \<noteq> CHR '' '') rest #
        (case dropWhile (\<lambda>c. c \<noteq> CHR '' '') rest of [] \<Rightarrow> [] | _ # r \<Rightarrow> split (CHR '' '') r)"
      using split_pieces [of "CHR '' ''" rest] by simp
    with sp p show ?thesis
      unfolding Cons
      by (simp add: defaultGetToken_header [OF assms(1)] assms(2) Let_def
          unauthorizedError_def invalid_scheme_error_def)
  qed
qed

lemma single_separator:
  "length (filter (\<lambda>c. c = sep) s) \<le> 1 \<Longrightarrow> dropWhile (\<lambda>c. c \<noteq> sep) s = c # rest \<Longrightarrow>
   sep \<notin> set rest"
  by (induction s) (auto simp: filter_empty_conv split: if_splits)

lemma takeWhile_single_space:
  assumes "length (filter (\<lambda>c. c = sep) s) \<le> 1" and "dropWhile (\<lambda>c. c \<noteq> sep) s = c # rest"
  shows "takeWhile (\<lambda>c. c \<noteq> sep) rest = rest"
  using single_separator [OF assms] by (auto simp: takeWhile_eq_all_conv)

text \<open>
  C2, as amended. The default extractor returns no credential, and no error, when the
  \<^verbatim>\<open>authorization\<close> header is missing or empty. A non-empty header is cut at every
  space: the scheme is the text before the first space and the value is the text
  between the first and the second space (no value when the header has no space). A
  scheme other than \<^verbatim>\<open>Bearer\<close> fails with a 401 error that quotes the scheme;
  otherwise the value is returned, the empty string included. So the extractor agrees
  with the split on the first space for every non-empty header with at most one space.
  In the non-Bearer case the pre-parse hook fails with that error and leaves the world
  as it was: no provider or cache call has been made.
\<close>

theorem defaultGetToken_contract:
  "(headers_get (request params) ''authorization'' = None \<or>
    headers_get (request params) ''authorization'' = Some [] \<longrightarrow>
      defaultGetToken params = Inr None) \<and>
   (headers_get (request params) ''authorization'' = Some header \<and> header \<noteq> [] \<longrightarrow>
      defaultGetToken params =
        (if takeWhile (\<lambda>c. c \<noteq> CHR '' '') header \<noteq> ''Bearer''
         then Inl (invalid_scheme_error (takeWhile (\<lambda>c. c \<noteq> CHR '' '') header))
         else (case dropWhile (\<lambda>c. c \<noteq> CHR '' '') header of
                 [] \<Rightarrow> Inr None
               | _ # rest \<Rightarrow> Inr (Some (takeWhile (\<lambda>c. c \<noteq> CHR '' '') rest)))) \<and>
      (length (filter (\<lambda>c. c = CHR '' '') header) \<le> 1 \<longrightarrow>
         defaultGetToken params = spec_extract (Some header)) \<and>
      (getToken opts = None \<and> takeWhile (\<lambda>c. c \<noteq> CHR '' '') header \<noteq> ''Bearer'' \<longrightarrow>
         onRequestParse h opts params w =
           (Inl (invalid_scheme_error (takeWhile (\<lambda>c. c \<noteq> CHR '' '') header)), w)))"
proof (intro conjI impI)
  assume "headers_get (request params) ''authorization'' = None \<or>
    headers_get (request params) ''authorization'' = Some []"
  then show "defaultGetToken params = Inr None"
    by (auto simp: defaultGetToken_def)
next
  assume a: "headers_get (request params) ''authorization'' = Some header \<and> header \<noteq> []"
  then show pieces: "defaultGetToken params =
        (if takeWhile (\<lambda>c. c \<noteq> CHR '' '') header \<noteq> ''Bearer''
         then Inl (invalid_scheme_error (takeWhile (\<lambda>c. c \<noteq> CHR '' '') header))
         else (case dropWhile (\<lambda>c. c \<noteq> CHR '' '') header of
                 [] \<Rightarrow> Inr None
               | _ # rest \<Rightarrow> Inr (Some (takeWhile (\<lambda>c. c \<noteq> CHR '' '') rest))))"
    by (simp add: defaultGetToken_pieces)
  {
    assume one: "length (filter (\<lambda>c. c = CHR '' '') header) \<le> 1"
    show "defaultGetToken params = spec_extract (Some header)"
    proof (cases "dropWhile (\<lambda>c. c \<noteq> CHR '' '') header")
      case Nil
      show ?thesis
        by (simp add: pieces spec_extract_def spec_split_first_space_def Nil)
    next
      case (Cons c rest)
      show ?thesis
        by (simp add: pieces spec_extract_def spec_split_first_space_def Cons
            takeWhile_single_space [OF one Cons])
    qed
  }
  {
    assume b: "getToken opts = None \<and> takeWhile (\<lambda>c. c \<noteq> CHR '' '') header \<noteq> ''Bearer''"
    with pieces have "plugin_getToken opts params =
        Inl (invalid_scheme_error (takeWhile (\<lambda>c. c \<noteq> CHR '' '') header))"
      by (simp add: plugin_getToken_def)
    then show "onRequestParse h opts params w =
           (Inl (invalid_scheme_error (takeWhile (\<lambda>c. c \<noteq> CHR '' '') header)), w)"
      by (rule onRequestParse_extractor_fails)
  }
qed

text \<open>
  The theorem at a request without headers, at the headers \<^verbatim>\<open>Bearer a b\<close> and
  \<^verbatim>\<open>Bearer abc\<close>, and at the header \<^verbatim>\<open>Basic abc\<close> under the default options.
\<close>

theorem defaultGetToken_contract_witness:
  "defaultGetToken (example_params []) = Inr None \<and>
   defaultGetToken (example_params [(''authorization'', ''Bearer a b'')]) = Inr (Some ''a'') \<and>
   defaultGetToken (example_params [(''authorization'', ''Bearer abc'')]) =
     spec_extract (Some ''Bearer abc'') \<and>
   spec_extract (Some ''Bearer abc'') = Inr (Some ''abc'') \<and>
   onRequestParse (example_host (Inl (Thrown ''unused'')) []) example_options
       (example_params [(''authorization'', ''Basic abc'')]) example_world =
     (Inl (GraphQLError (''Unsupported token type provided: '' @ [CHR 0x22] @ ''Basic'' @
                          [CHR 0x22]) (Some 401)),
      example_world)"
proof -
  let ?h = "example_host (Inl (Thrown ''unused'')) []"
  have n: "headers_get (request (example_params [])) ''authorization'' = None \<or>
      headers_get (request (example_params [])) ''authorization'' = Some []"
    by (simp add: headers_get_def example_defs)
  have a: "defaultGetToken (example_params []) = Inr None"
    using defaultGetToken_contract [where params = "example_params []", THEN conjunct1,
        THEN mp, OF n] .
  have hd: "headers_get (request (example_params [(''authorization'', v)])) ''authorization'' =
      Some v \<and> v \<noteq> []" if "v \<noteq> []" for v
    using that by (simp add: headers_get_def example_defs)
  have h1: "headers_get (request (example_params [(''authorization'', ''Bearer a b'')]))
      ''authorization'' = Some ''Bearer a b'' \<and> ''Bearer a b'' \<noteq> []"
    and h2: "headers_get (request (example_params [(''authorization'', ''Bearer abc'')]))
      ''authorization'' = Some ''Bearer abc'' \<and> ''Bearer abc'' \<noteq> []"
    and h3: "headers_get (request (example_params [(''authorization'', ''Basic abc'')]))
      ''authorization'' = Some ''Basic abc'' \<and> ''Basic abc'' \<noteq> []"
    by (simp_all add: hd)
  have b: "defaultGetToken (example_params [(''authorization'', ''Bearer a b'')]) =
      Inr (Some ''a'')"
    using defaultGetToken_contract [where header = "''Bearer a b''"
        and params = "example_params [(''authorization'', ''Bearer a b'')]",
        THEN conjunct2, THEN mp, OF h1, THEN conjunct1]
    by simp
  have c: "defaultGetToken (example_params [(''authorization'', ''Bearer abc'')]) =
     spec_extract (Some ''Bearer abc'')"
    using defaultGetToken_contract [where header = "''Bearer abc''"
        and params = "example_params [(''authorization'', ''Bearer abc'')]",
        THEN conjunct2, THEN mp, OF h2, THEN conjunct2, THEN conjunct1]
    by simp
  have d: "spec_extract (Some ''Bearer abc'') = Inr (Some ''abc'')"
    by (simp add: spec_extract_def spec_split_first_space_def)
  have e: "onRequestParse ?h example_options
       (example_params [(''authorization'', ''Basic abc'')]) example_world =
     (Inl (GraphQLError (''Unsupported token type provided: '' @ [CHR 0x22] @ ''Basic'' @
                          [CHR 0x22]) (Some 401)),
      example_world)"
    using defaultGetToken_contract [where header = "''Basic abc''"
        and params = "example_params [(''authorization'', ''Basic abc'')]"
        and opts = example_options and h = ?h and w = example_world,
        THEN conjunct2, THEN mp, OF h3, THEN conjunct2, THEN conjunct2]
    by (simp add: invalid_scheme_error_def example_options_def)
  from a b c d e show ?thesis by (intro conjI)
qed

text \<open>
  C2 as stated fails at the header \<^verbatim>\<open>Bearer a b\<close>: the split on the first space
  gives the value \<^verbatim>\<open>a b\<close>, the extractor returns \<^verbatim>\<open>a\<close>. It also fails at a
  header that is present and empty, which the extractor treats as missing.
\<close>

theorem bearer_value_with_space_is_cut:
  "defaultGetToken (example_params [(''authorization'', ''Bearer a b'')]) = Inr (Some ''a'') \<and>
   spec_extract (Some ''Bearer a b'') = Inr (Some ''a b'') \<and>
   defaultGetToken (example_params [(''authorization'', '''')]) = Inr None \<and>
   spec_extract (Some '''') = Inl (invalid_scheme_error '''')"
  by (simp add: defaultGetToken_def headers_get_def spec_extract_def
      spec_split_first_space_def example_defs)

end
